theory Spec2Isabelle
  imports Complex_Main "HOL-Library.Multiset" "HOL-Library.Word"
begin

text \<open>
  The embedding index of the watsonx server: the command-line script that builds, saves,
  loads and searches the index and answers questions from it (\<open>embedding-index.js\<close>), and
  the tool-call handler of the protocol server (\<open>index.js\<close>). The \<open>cosineSimilarity\<close> of
  \<open>document-analyzer.js\<close> is the same function as the one of the script.
\<close>

section \<open>JavaScript numbers\<close>

text \<open>
  A JavaScript number is an IEEE double: a finite value, one of the two infinities, or NaN.
  A finite double is read as the real number it denotes. The sign of zero is not kept.
  Every arithmetic operation of the source rounds its exact result to a double; the rounding
  is the parameter \<open>rnd\<close> of the operations below (it may overflow to an infinity), and
  nothing proved here depends on which rounding it is.
\<close>

datatype jsnum = Num real | PosInf | NegInf | NaN

type_synonym rounding = "real \<Rightarrow> jsnum"

text \<open>The sign of a number that is not NaN: the infinities have the signs 1 and -1.\<close>

fun sign_of :: "jsnum \<Rightarrow> real" where
  "sign_of (Num x) = sgn x"
| "sign_of PosInf = 1"
| "sign_of NegInf = - 1"
| "sign_of NaN = 0"

definition inf_of_sign :: "real \<Rightarrow> jsnum" where
  "inf_of_sign s = (if s = 0 then NaN else if 0 < s then PosInf else NegInf)"

text \<open>\<open>x * y\<close>: NaN is absorbing, infinity times zero is NaN.\<close>

fun js_mul :: "rounding \<Rightarrow> jsnum \<Rightarrow> jsnum \<Rightarrow> jsnum" where
  "js_mul rnd NaN y = NaN"
| "js_mul rnd x NaN = NaN"
| "js_mul rnd (Num x) (Num y) = rnd (x * y)"
| "js_mul rnd x y = inf_of_sign (sign_of x * sign_of y)"

text \<open>\<open>x + y\<close>: the sum of the two opposite infinities is NaN.\<close>

fun js_add :: "rounding \<Rightarrow> jsnum \<Rightarrow> jsnum \<Rightarrow> jsnum" where
  "js_add rnd NaN y = NaN"
| "js_add rnd x NaN = NaN"
| "js_add rnd (Num x) (Num y) = rnd (x + y)"
| "js_add rnd PosInf NegInf = NaN"
| "js_add rnd NegInf PosInf = NaN"
| "js_add rnd PosInf y = PosInf"
| "js_add rnd NegInf y = NegInf"
| "js_add rnd (Num x) y = y"

text \<open>
  \<open>x / y\<close>: zero over zero and infinity over infinity are NaN, a non-zero number over zero
  is an infinity, a finite number over an infinity is zero.
\<close>

fun js_div :: "rounding \<Rightarrow> jsnum \<Rightarrow> jsnum \<Rightarrow> jsnum" where
  "js_div rnd NaN y = NaN"
| "js_div rnd x NaN = NaN"
| "js_div rnd (Num x) (Num y) = (if y = 0 then inf_of_sign (sgn x) else rnd (x / y))"
| "js_div rnd (Num x) y = Num 0"
| "js_div rnd x (Num y) = inf_of_sign (sign_of x * (if y < 0 then - 1 else 1))"
| "js_div rnd x y = NaN"

text \<open>\<open>Math.sqrt\<close>: NaN below zero.\<close>

fun js_sqrt :: "rounding \<Rightarrow> jsnum \<Rightarrow> jsnum" where
  "js_sqrt rnd (Num x) = (if x < 0 then NaN else rnd (sqrt x))"
| "js_sqrt rnd PosInf = PosInf"
| "js_sqrt rnd NegInf = NaN"
| "js_sqrt rnd NaN = NaN"

text \<open>
  \<open>x - y\<close>, as the comparator of the sort computes it. The difference of two doubles is
  zero only when they are equal and has the sign of the exact difference otherwise, and the
  sort reads nothing but that sign, so the difference is left unrounded.
\<close>

fun js_sub :: "jsnum \<Rightarrow> jsnum \<Rightarrow> jsnum" where
  "js_sub NaN y = NaN"
| "js_sub x NaN = NaN"
| "js_sub (Num x) (Num y) = Num (x - y)"
| "js_sub PosInf PosInf = NaN"
| "js_sub NegInf NegInf = NaN"
| "js_sub PosInf y = PosInf"
| "js_sub NegInf y = NegInf"
| "js_sub (Num x) PosInf = NegInf"
| "js_sub (Num x) NegInf = PosInf"

text \<open>The comparisons \<open>x > 0\<close> and \<open>x >= y\<close>; both are false when NaN is involved.\<close>

fun js_positive :: "jsnum \<Rightarrow> bool" where
  "js_positive (Num x) = (0 < x)"
| "js_positive PosInf = True"
| "js_positive NegInf = False"
| "js_positive NaN = False"

fun js_ge :: "jsnum \<Rightarrow> jsnum \<Rightarrow> bool" where
  "js_ge NaN y = False"
| "js_ge x NaN = False"
| "js_ge (Num x) (Num y) = (y \<le> x)"
| "js_ge PosInf y = True"
| "js_ge x NegInf = True"
| "js_ge x y = False"

section \<open>Embedding vectors and cosine similarity\<close>

text \<open>
  A slot of the \<open>embeddings\<close> array holds a vector of finite numbers, or \<open>undefined\<close>
  (what \<open>embeddings[j]\<close> reads beyond the end of the service's answer), or \<open>null\<close>
  (what an \<open>undefined\<close> slot becomes in the JSON file).
\<close>

datatype emb = Vec "real list" | Undefined | Null

text \<open>
  What is raised: a TypeError of the engine, the SyntaxError of \<open>JSON.parse\<close>, a failure
  of the file system, a failure of the remote service, or an error of the client library's own
  checks.
\<close>

datatype error = TypeError | SyntaxError | IOError | ServiceError | SdkError

text \<open>\<open>v[i]\<close> as an operand of \<open>*\<close>: beyond the end it is \<open>undefined\<close>, which \<open>*\<close> reads as NaN.\<close>

definition at_index :: "real list \<Rightarrow> nat \<Rightarrow> jsnum" where
  "at_index v i = (if i < length v then Num (v ! i) else NaN)"

text \<open>The \<open>for\<close> loop of \<open>cosineSimilarity\<close>, with the accumulators \<open>(dot, normA, normB)\<close>.\<close>

function cosine_loop ::
  "rounding \<Rightarrow> real list \<Rightarrow> real list \<Rightarrow> nat \<Rightarrow> jsnum \<times> jsnum \<times> jsnum \<Rightarrow> jsnum \<times> jsnum \<times> jsnum" where
  "cosine_loop rnd a b i (dot, normA, normB) =
     (if i < length a
      then cosine_loop rnd a b (i + 1)
             (js_add rnd dot (js_mul rnd (at_index a i) (at_index b i)),
              js_add rnd normA (js_mul rnd (at_index a i) (at_index a i)),
              js_add rnd normB (js_mul rnd (at_index b i) (at_index b i)))
      else (dot, normA, normB))"
  by pat_completeness auto
termination
  by (relation "measure (\<lambda>(rnd, a, b, i, acc). length a - i)") auto

declare cosine_loop.simps [simp del]

definition cosine_result :: "rounding \<Rightarrow> jsnum \<times> jsnum \<times> jsnum \<Rightarrow> jsnum" where
  "cosine_result rnd acc =
     (case acc of (dot, normA, normB) \<Rightarrow>
        js_div rnd dot (js_mul rnd (js_sqrt rnd normA) (js_sqrt rnd normB)))"

text \<open>
  \<open>cosineSimilarity(a, b)\<close>. Reading \<open>a.length\<close> of \<open>undefined\<close> or \<open>null\<close> raises a
  TypeError, and so does \<open>b[i]\<close> when \<open>b\<close> is \<open>undefined\<close> or \<open>null\<close> and the loop body
  runs at all.
\<close>

fun cosineSimilarity :: "rounding \<Rightarrow> emb \<Rightarrow> emb \<Rightarrow> error + jsnum" where
  "cosineSimilarity rnd (Vec a) (Vec b) =
     Inr (cosine_result rnd (cosine_loop rnd a b 0 (Num 0, Num 0, Num 0)))"
| "cosineSimilarity rnd (Vec a) b =
     (if a = [] then Inr (cosine_result rnd (Num 0, Num 0, Num 0)) else Inl TypeError)"
| "cosineSimilarity rnd a b = Inl TypeError"

section \<open>Strings and arrays\<close>

text \<open>
  A JavaScript string is a sequence of UTF-16 code units, and \<open>length\<close> and \<open>substring\<close>
  count code units. \<open>lit\<close> turns an ASCII literal into such a string.
\<close>

type_synonym jsstring = "16 word list"

definition lit :: "string \<Rightarrow> jsstring" where
  "lit s = map (\<lambda>c. of_nat (of_char c)) s"

text \<open>\<open>s.endsWith(suffix)\<close>.\<close>

definition endsWith :: "jsstring \<Rightarrow> jsstring \<Rightarrow> bool" where
  "endsWith s suffix =
     (length suffix \<le> length s \<and> drop (length s - length suffix) s = suffix)"

text \<open>\<open>s.replace(/\n/g, " ")\<close>: every line feed becomes a space.\<close>

definition replace_newlines :: "jsstring \<Rightarrow> jsstring" where
  "replace_newlines s = map (\<lambda>c. if c = 0x0A then 0x20 else c) s"

text \<open>An integer inside a template literal: its decimal digits.\<close>

fun show_nat :: "nat \<Rightarrow> jsstring" where
  "show_nat n =
     (if n < 10 then [48 + of_nat n] else show_nat (n div 10) @ [48 + of_nat (n mod 10)])"

declare show_nat.simps [simp del]

definition show_int :: "int \<Rightarrow> jsstring" where
  "show_int i = (if i < 0 then 0x2D # show_nat (nat (- i)) else show_nat (nat i))"

text \<open>
  \<open>xs.slice(start, end)\<close> for integers \<open>start\<close> and \<open>end\<close>: a negative bound counts from
  the end of the array, and both bounds are clamped to the array.
\<close>

definition js_slice :: "'a list \<Rightarrow> int \<Rightarrow> int \<Rightarrow> 'a list" where
  "js_slice xs start end =
     (let len = int (length xs);
          k = (if start < 0 then max (len + start) 0 else min start len);
          final = (if end < 0 then max (len + end) 0 else min end len)
      in take (nat (final - k)) (drop (nat k) xs))"

text \<open>
  \<open>xs.sort(comparefn)\<close>. The sort reads the comparator through \<open>SortCompare\<close>, which takes
  a NaN answer for zero, and moves \<open>x\<close> behind \<open>y\<close> only on a positive answer. It is
  stable, so for a comparator that orders the elements consistently the result does not depend
  on the algorithm; insertion sort stands for it. For a comparator that is not consistent, as
  \<open>b.similarity - a.similarity\<close> can be once a NaN stands among three or more elements, the
  language leaves the order to the engine, and the order computed here is then not the
  engine's: nothing below reads the order of such a sort.
\<close>

definition SortCompare :: "('a \<Rightarrow> 'a \<Rightarrow> jsnum) \<Rightarrow> 'a \<Rightarrow> 'a \<Rightarrow> jsnum" where
  "SortCompare comparefn x y = (case comparefn x y of NaN \<Rightarrow> Num 0 | v \<Rightarrow> v)"

fun sort_insert :: "('a \<Rightarrow> 'a \<Rightarrow> jsnum) \<Rightarrow> 'a \<Rightarrow> 'a list \<Rightarrow> 'a list" where
  "sort_insert comparefn x [] = [x]"
| "sort_insert comparefn x (y # ys) =
     (if js_positive (SortCompare comparefn x y) then y # sort_insert comparefn x ys
      else x # y # ys)"

fun js_sort :: "('a \<Rightarrow> 'a \<Rightarrow> jsnum) \<Rightarrow> 'a list \<Rightarrow> 'a list" where
  "js_sort comparefn [] = []"
| "js_sort comparefn (x # xs) = sort_insert comparefn x (js_sort comparefn xs)"

section \<open>The index and its file\<close>

text \<open>An indexed document: \<open>{ filename, preview, length }\<close>.\<close>

record doc =
  filename :: jsstring
  preview :: jsstring
  length_d :: nat

text \<open>
  The \<open>metadata\<close> object. A property that is absent reads as \<open>undefined\<close>, and
  \<open>JSON.stringify\<close> leaves an \<open>undefined\<close> property out, so each is an option.
\<close>

record metadata =
  created :: "jsstring option"
  updated :: "jsstring option"
  count_m :: "nat option"

record index =
  documents :: "doc list"
  embeddings :: "emb list"
  metadata :: metadata

text \<open>
  The index file holds a text. \<open>JSON.parse\<close> raises a SyntaxError on a text that is not
  JSON; otherwise the text denotes a JSON value, which has \<open>null\<close> but no \<open>undefined\<close>.
  The JSON values considered are the ones of the index's shape.
\<close>

datatype json_emb = JVec "real list" | JNull

record json_index =
  json_documents :: "doc list"
  json_embeddings :: "json_emb list"
  json_metadata :: metadata

datatype file_text = NotJson | JsonText json_index

fun emb_to_json :: "emb \<Rightarrow> json_emb" where
  "emb_to_json (Vec v) = JVec v"
| "emb_to_json Undefined = JNull"
| "emb_to_json Null = JNull"

fun json_to_emb :: "json_emb \<Rightarrow> emb" where
  "json_to_emb (JVec v) = Vec v"
| "json_to_emb JNull = Null"

text \<open>\<open>JSON.stringify(index, null, 2)\<close>: an \<open>undefined\<close> array element is written as \<open>null\<close>.\<close>

definition JSON_stringify :: "index \<Rightarrow> file_text" where
  "JSON_stringify i =
     JsonText \<lparr>json_documents = documents i,
               json_embeddings = map emb_to_json (embeddings i),
               json_metadata = metadata i\<rparr>"

fun JSON_parse :: "file_text \<Rightarrow> error + index" where
  "JSON_parse NotJson = Inl SyntaxError"
| "JSON_parse (JsonText j) =
     Inr \<lparr>documents = json_documents j,
          embeddings = map json_to_emb (json_embeddings j),
          metadata = json_metadata j\<rparr>"

section \<open>The process and its surroundings\<close>

text \<open>A request sent to the remote service: \<open>embedText\<close> with its inputs, \<open>generateText\<close> with its prompt.\<close>

datatype call = EmbedText "jsstring list" | GenerateText jsstring

text \<open>
  A line of output. \<open>Log\<close> is a line of \<open>console.log\<close>, \<open>Err\<close> a line of \<open>console.error\<close>.
  A line that prints a similarity with \<open>toFixed(4)\<close> is kept as its parts, the number
  unformatted: \<open>LogContext\<close> is the line of \<open>ragQuery\<close> (position, file name, similarity),
  \<open>LogResult\<close> the first line of a search result.
\<close>

datatype line =
    Log jsstring
  | Err jsstring
  | LogContext nat jsstring jsnum
  | LogResult nat jsstring jsnum

text \<open>
  What the process reads from outside: its configuration, the listing of the documents
  directory, the files in it by path, the answers of the remote service (which may depend on
  the requests sent before), whether the index file can be written, and the clock by the
  number of earlier readings.
\<close>

record env =
  WATSONX_API_KEY :: "jsstring option"
  WATSONX_SPACE_ID :: "jsstring option"
  readdir :: "error + jsstring list"
  readFile :: "jsstring \<Rightarrow> error + jsstring"
  embedText :: "call list \<Rightarrow> jsstring list \<Rightarrow> error + emb list option"
  generateText :: "call list \<Rightarrow> jsstring \<Rightarrow> error + jsstring option"
  writable :: bool
  toISOString :: "nat \<Rightarrow> jsstring"

text \<open>
  What the process changes: the index file (\<open>None\<close> when it cannot be read), the requests
  sent so far, the lines printed so far, and the number of clock readings.
\<close>

record state =
  index_file :: "file_text option"
  calls :: "call list"
  console :: "line list"
  clock_reads :: nat

definition console_log :: "jsstring \<Rightarrow> state \<Rightarrow> state" where
  "console_log text s = s\<lparr>console := console s @ [Log text]\<rparr>"

text \<open>\<open>new Date().toISOString()\<close>.\<close>

definition new_Date :: "env \<Rightarrow> state \<Rightarrow> jsstring \<times> state" where
  "new_Date e s = (toISOString e (clock_reads s), s\<lparr>clock_reads := clock_reads s + 1\<rparr>)"

definition DOCUMENTS_PATH :: jsstring where
  "DOCUMENTS_PATH = lit ''/Volumes/Virtual Server/_NEW/Documents''"

definition INDEX_PATH :: jsstring where
  "INDEX_PATH = lit ''/Users/matthewkarsten/watsonx-mcp-server/embeddings-index.json''"

text \<open>A string or \<open>undefined\<close> as a condition: \<open>undefined\<close> and the empty string are false.\<close>

fun truthy :: "jsstring option \<Rightarrow> bool" where
  "truthy None = False"
| "truthy (Some s) = (s \<noteq> [])"

text \<open>\<open>x || d\<close> for a string or \<open>undefined\<close> \<open>x\<close>.\<close>

fun or_else :: "jsstring option \<Rightarrow> jsstring \<Rightarrow> jsstring" where
  "or_else None d = d"
| "or_else (Some s) d = (if s = [] then d else s)"

text \<open>A string or \<open>undefined\<close> inside a template literal or as the argument of \<open>parseInt\<close>.\<close>

definition ToString :: "jsstring option \<Rightarrow> jsstring" where
  "ToString arg = (case arg of None \<Rightarrow> lit ''undefined'' | Some a \<Rightarrow> a)"

text \<open>
  \<open>getClient()\<close> is \<open>null\<close> without an API key. With a key the client is made by the
  library, which is taken to succeed.
\<close>

definition getClient :: "env \<Rightarrow> bool" where
  "getClient e = truthy (WATSONX_API_KEY e)"

text \<open>
  \<open>generateEmbeddings(texts)\<close>: one request to the service. Calling \<open>embedText\<close> on a
  \<open>null\<close> client raises a TypeError, an error of the service is passed on, and an answer
  without \<open>results\<close> counts as \<open>[]\<close>.
\<close>

definition generateEmbeddings :: "env \<Rightarrow> jsstring list \<Rightarrow> state \<Rightarrow> (error + emb list) \<times> state" where
  "generateEmbeddings e texts s =
     (if \<not> getClient e then (Inl TypeError, s)
      else
        let s' = s\<lparr>calls := calls s @ [EmbedText texts]\<rparr>
        in case embedText e (calls s) texts of
             Inl err \<Rightarrow> (Inl err, s')
           | Inr results \<Rightarrow> (Inr (case results of None \<Rightarrow> [] | Some rs \<Rightarrow> rs), s'))"

section \<open>Loading and saving\<close>

text \<open>The \<open>try\<close> block of \<open>loadIndex\<close>: read the file, parse it.\<close>

definition loadIndex_try :: "state \<Rightarrow> error + index" where
  "loadIndex_try s =
     (case index_file s of None \<Rightarrow> Inl IOError | Some data \<Rightarrow> JSON_parse data)"

text \<open>\<open>loadIndex()\<close>: whatever the \<open>try\<close> block raises, the \<open>catch\<close> returns an empty index.\<close>

definition loadIndex :: "env \<Rightarrow> state \<Rightarrow> (error + index) \<times> state" where
  "loadIndex e s =
     (case loadIndex_try s of
        Inr i \<Rightarrow> (Inr i, s)
      | Inl err \<Rightarrow>
          (let (now, s') = new_Date e s
           in (Inr \<lparr>documents = [], embeddings = [],
                    metadata = \<lparr>created = Some now, updated = None, count_m = Some 0\<rparr>\<rparr>, s')))"

text \<open>
  \<open>saveIndex(index)\<close> stamps \<open>updated\<close> and \<open>count\<close> on the index it was given, then writes
  the file; a failed write raises. The stamped index is returned, since the caller sees the
  same object.
\<close>

definition saveIndex :: "env \<Rightarrow> index \<Rightarrow> state \<Rightarrow> (error + index) \<times> state" where
  "saveIndex e i s =
     (let (now, s1) = new_Date e s;
          i1 = i\<lparr>metadata := (metadata i)\<lparr>updated := Some now\<rparr>\<rparr>;
          i2 = i1\<lparr>metadata := (metadata i1)\<lparr>count_m := Some (length (documents i1))\<rparr>\<rparr>
      in if writable e then (Inr i2, s1\<lparr>index_file := Some (JSON_stringify i2)\<rparr>)
         else (Inl IOError, s1))"

section \<open>Building the index\<close>

text \<open>
  The inner loop of \<open>buildIndex\<close> over one batch of file names: a file that can be read
  adds its first 500 code units to \<open>texts\<close> and its entry to \<open>docs\<close>; a file that cannot be
  read is skipped.
\<close>

fun read_batch :: "env \<Rightarrow> jsstring list \<Rightarrow> jsstring list \<times> doc list" where
  "read_batch e [] = ([], [])"
| "read_batch e (file # batch) =
     (let (texts, docs) = read_batch e batch
      in case readFile e (DOCUMENTS_PATH @ lit ''/'' @ file) of
           Inl err \<Rightarrow> (texts, docs)
         | Inr content \<Rightarrow>
             (let truncated = take 500 content
              in (truncated # texts,
                  \<lparr>filename = file,
                   preview = replace_newlines (take 200 truncated),
                   length_d = length content\<rparr> # docs)))"

text \<open>\<open>embeddings[j]\<close>: \<open>undefined\<close> beyond the end.\<close>

definition emb_at :: "emb list \<Rightarrow> nat \<Rightarrow> emb" where
  "emb_at es j = (if j < length es then es ! j else Undefined)"

text \<open>The loop over \<open>j\<close> that pushes \<open>docs[j]\<close> and \<open>embeddings[j]\<close> for every \<open>j < docs.length\<close>.\<close>

definition push_batch :: "doc list \<Rightarrow> emb list \<Rightarrow> index \<Rightarrow> index" where
  "push_batch docs es i =
     i\<lparr>documents := documents i @ docs,
       embeddings := embeddings i @ map (emb_at es) [0..<length docs]\<rparr>"

text \<open>The loop over the batches of ten, from position \<open>i\<close>. An error of the service ends the build.\<close>

function build_loop ::
  "env \<Rightarrow> jsstring list \<Rightarrow> nat \<Rightarrow> index \<Rightarrow> state \<Rightarrow> (error + index) \<times> state" where
  "build_loop e txtFiles i ix s =
     (if i < length txtFiles then
        (let batch = js_slice txtFiles (int i) (int i + 10);
             (texts, docs) = read_batch e batch
         in if 0 < length texts then
              (let s1 = console_log (lit ''   Processing batch '' @ show_nat (i div 10 + 1) @ lit ''/''
                          @ show_nat ((length txtFiles + 9) div 10) @ lit ''...'') s
               in case generateEmbeddings e texts s1 of
                    (Inl err, s2) \<Rightarrow> (Inl err, s2)
                  | (Inr es, s2) \<Rightarrow> build_loop e txtFiles (i + 10) (push_batch docs es ix) s2)
            else build_loop e txtFiles (i + 10) ix s)
      else (Inr ix, s))"
  by pat_completeness auto
termination
  by (relation "measure (\<lambda>(e, txtFiles, i, ix, s). length txtFiles - i)") auto

declare build_loop.simps [simp del]

text \<open>\<open>buildIndex(maxDocs)\<close>. A failure of \<open>readdir\<close>, of the service or of the write raises.\<close>

definition buildIndex :: "env \<Rightarrow> int \<Rightarrow> state \<Rightarrow> (error + index) \<times> state" where
  "buildIndex e maxDocs s =
     (let s1 = console_log ([0xD83D, 0xDCDA] @ lit '' Building embedding index...'') s;
          s2 = console_log (lit ''   Source: '' @ DOCUMENTS_PATH) s1;
          s3 = console_log (lit ''   Max documents: '' @ show_int maxDocs) s2
      in case readdir e of
           Inl err \<Rightarrow> (Inl err, s3)
         | Inr files \<Rightarrow>
             (let txtFiles = js_slice (filter (\<lambda>f. endsWith f (lit ''.txt'')) files) 0 maxDocs;
                  s4 = console_log (lit ''   Found '' @ show_nat (length txtFiles) @ lit '' text files'') s3;
                  (now, s5) = new_Date e s4;
                  ix = \<lparr>documents = [], embeddings = [],
                        metadata = \<lparr>created = Some now, updated = None, count_m = None\<rparr>\<rparr>
              in case build_loop e txtFiles 0 ix s5 of
                   (Inl err, s6) \<Rightarrow> (Inl err, s6)
                 | (Inr built, s6) \<Rightarrow>
                     (case saveIndex e built s6 of
                        (Inl err, s7) \<Rightarrow> (Inl err, s7)
                      | (Inr saved, s7) \<Rightarrow>
                          (let s8 = console_log ([0x000A, 0x2705] @ lit '' Index built with ''
                                      @ show_nat (length (documents saved)) @ lit '' documents'') s7;
                               s9 = console_log (lit ''   Saved to: '' @ INDEX_PATH) s8
                           in (Inr saved, s9)))))"

section \<open>Searching\<close>

text \<open>
  A search result is \<open>{ ...index.documents[i], similarity }\<close>: the properties of the document
  when there is one at position \<open>i\<close> (spreading \<open>undefined\<close> adds nothing), and the similarity.
\<close>

record search_result =
  doc_fields :: "doc option"
  similarity :: jsnum

text \<open>\<open>r.filename\<close> inside a template literal.\<close>

definition filename_text :: "search_result \<Rightarrow> jsstring" where
  "filename_text r = (case doc_fields r of None \<Rightarrow> lit ''undefined'' | Some d \<Rightarrow> filename d)"

text \<open>
  \<open>index.embeddings.map((emb, i) => ...)\<close> from position \<open>i\<close>; it raises as soon as
  \<open>cosineSimilarity\<close> does.
\<close>

fun map_embeddings :: "rounding \<Rightarrow> emb \<Rightarrow> doc list \<Rightarrow> emb list \<Rightarrow> nat \<Rightarrow> error + search_result list" where
  "map_embeddings rnd queryEmbedding docs [] i = Inr []"
| "map_embeddings rnd queryEmbedding docs (em # es) i =
     (case cosineSimilarity rnd queryEmbedding em of
        Inl err \<Rightarrow> Inl err
      | Inr sim \<Rightarrow>
          (case map_embeddings rnd queryEmbedding docs es (i + 1) of
             Inl err \<Rightarrow> Inl err
           | Inr rs \<Rightarrow>
               Inr (\<lparr>doc_fields = (if i < length docs then Some (docs ! i) else None),
                     similarity = sim\<rparr> # rs)))"

text \<open>The comparator of the sort: \<open>(a, b) => b.similarity - a.similarity\<close>.\<close>

definition by_similarity :: "search_result \<Rightarrow> search_result \<Rightarrow> jsnum" where
  "by_similarity a b = js_sub (similarity b) (similarity a)"

text \<open>\<open>queryIndex(query, topK)\<close>.\<close>

definition queryIndex ::
  "rounding \<Rightarrow> env \<Rightarrow> jsstring \<Rightarrow> int \<Rightarrow> state \<Rightarrow> (error + search_result list) \<times> state" where
  "queryIndex rnd e query topK s =
     (let s1 = console_log ([0xD83D, 0xDD0D] @ lit '' Searching: '' @ [0x22] @ query @ [0x22]) s
      in case loadIndex e s1 of
           (Inl err, s2) \<Rightarrow> (Inl err, s2)
         | (Inr ix, s2) \<Rightarrow>
             if length (documents ix) = 0 then
               (Inr [], console_log (lit ''   Index is empty. Run '' @ [0x27] @ lit ''build''
                                      @ [0x27] @ lit '' first.'') s2)
             else
               (let s3 = console_log (lit ''   Searching '' @ show_nat (length (documents ix))
                           @ lit '' documents...'') s2
                in case generateEmbeddings e [query] s3 of
                     (Inl err, s4) \<Rightarrow> (Inl err, s4)
                   | (Inr es, s4) \<Rightarrow>
                       (let queryEmbedding = emb_at es 0
                        in case map_embeddings rnd queryEmbedding (documents ix) (embeddings ix) 0 of
                             Inl err \<Rightarrow> (Inl err, s4)
                           | Inr results \<Rightarrow> (Inr (js_slice (js_sort by_similarity results) 0 topK), s4))))"

section \<open>Retrieval and generation\<close>

text \<open>The white space and line terminators that \<open>trim\<close> and \<open>parseInt\<close> strip.\<close>

definition is_whitespace :: "16 word \<Rightarrow> bool" where
  "is_whitespace c =
     (c \<in> {0x09, 0x0A, 0x0B, 0x0C, 0x0D, 0x20, 0xA0, 0x1680, 0x2028, 0x2029, 0x202F, 0x205F,
            0x3000, 0xFEFF}
      \<or> (0x2000 \<le> c \<and> c \<le> 0x200A))"

definition trim :: "jsstring \<Rightarrow> jsstring" where
  "trim s = rev (dropWhile is_whitespace (rev (dropWhile is_whitespace s)))"

text \<open>\<open>xs.join(sep)\<close> for an array of strings.\<close>

fun join :: "jsstring \<Rightarrow> jsstring list \<Rightarrow> jsstring" where
  "join sep [] = []"
| "join sep [x] = x"
| "join sep (x # y # ys) = x @ sep @ join sep (y # ys)"

text \<open>A context of \<open>ragQuery\<close>: \<open>{ filename, content, similarity }\<close>.\<close>

record context_entry =
  c_filename :: jsstring
  c_content :: jsstring
  c_similarity :: jsnum

text \<open>The loop of \<open>ragQuery\<close> that reads the documents again; an unreadable one is skipped.\<close>

fun load_contexts :: "env \<Rightarrow> search_result list \<Rightarrow> context_entry list" where
  "load_contexts e [] = []"
| "load_contexts e (r # rs) =
     (case readFile e (DOCUMENTS_PATH @ lit ''/'' @ filename_text r) of
        Inl err \<Rightarrow> load_contexts e rs
      | Inr content \<Rightarrow>
          \<lparr>c_filename = filename_text r, c_content = take 1500 content,
           c_similarity = similarity r\<rparr> # load_contexts e rs)"

definition rag_prompt :: "jsstring \<Rightarrow> jsstring \<Rightarrow> jsstring" where
  "rag_prompt contextText question =
     lit ''You are a helpful assistant. Answer the question based on the provided context documents. If the answer is not in the context, say so.''
     @ [0x0A, 0x0A] @ lit ''Context Documents:'' @ [0x0A] @ contextText
     @ [0x0A, 0x0A] @ lit ''Question: '' @ question
     @ [0x0A, 0x0A] @ lit ''Answer:''"

text \<open>\<open>console.log\<close> for each element of an array, the position counted from \<open>i\<close>.\<close>

fun log_contexts :: "nat \<Rightarrow> context_entry list \<Rightarrow> state \<Rightarrow> state" where
  "log_contexts i [] s = s"
| "log_contexts i (c # cs) s =
     log_contexts (i + 1) cs
       (s\<lparr>console := console s @ [LogContext (i + 1) (c_filename c) (c_similarity c)]\<rparr>)"

fun log_sources :: "context_entry list \<Rightarrow> state \<Rightarrow> state" where
  "log_sources [] s = s"
| "log_sources (c # cs) s = log_sources cs (console_log (lit ''   - '' @ c_filename c) s)"

text \<open>
  \<open>ragQuery(question, topK)\<close>. With no search result it prints its message and returns
  before any context is read and before the generation request.
\<close>

definition ragQuery ::
  "rounding \<Rightarrow> env \<Rightarrow> jsstring \<Rightarrow> int \<Rightarrow> state \<Rightarrow> (error + unit) \<times> state" where
  "ragQuery rnd e question topK s =
     (let s1 = console_log ([0xD83D, 0xDCA1] @ lit '' RAG Query: '' @ [0x22] @ question @ [0x22]) s
      in case queryIndex rnd e question topK s1 of
           (Inl err, s2) \<Rightarrow> (Inl err, s2)
         | (Inr results, s2) \<Rightarrow>
             if length results = 0 then
               (Inr (), console_log (lit ''   No documents found. Build index first.'') s2)
             else
               (let contexts = load_contexts e results;
                    s3 = console_log ([0x0A] @ lit ''   Retrieved '' @ show_nat (length contexts)
                           @ lit '' relevant documents:'') s2;
                    s4 = log_contexts 0 contexts s3;
                    contextText =
                      join ([0x0A, 0x0A] @ lit ''---'' @ [0x0A, 0x0A])
                        (map (\<lambda>c. lit ''['' @ c_filename c @ lit '']'' @ [0x0A] @ c_content c) contexts);
                    s5 = console_log ([0x0A] @ lit ''   Generating answer with Granite 3.3...'' @ [0x0A]) s4
                in if \<not> getClient e then (Inl TypeError, s5)
                   else
                     (let input = rag_prompt contextText question;
                          s6 = s5\<lparr>calls := calls s5 @ [GenerateText input]\<rparr>
                      in case generateText e (calls s5) input of
                           Inl err \<Rightarrow> (Inl err, s6)
                         | Inr generated \<Rightarrow>
                             (let trimmed = (case generated of None \<Rightarrow> [] | Some t \<Rightarrow> trim t);
                                  answer = (if trimmed = [] then lit ''No answer generated'' else trimmed);
                                  s7 = console_log (lit ''   '' @ replicate 60 0x2500) s6;
                                  s8 = console_log (lit ''   Answer:'') s7;
                                  s9 = console_log (lit ''   '' @ concat (map (\<lambda>c. if c = 0x0A then [0x0A] @ lit ''   '' else [c]) answer)) s8;
                                  s10 = console_log (lit ''   '' @ replicate 60 0x2500) s9;
                                  s11 = console_log ([0x0A] @ lit ''   Sources:'') s10
                              in (Inr (), log_sources contexts s11)))))"

section \<open>The command line\<close>



text \<open>
  \<open>parseInt(string)\<close> without a radix: leading white space is dropped, then an optional sign,
  then an optional \<open>0x\<close> or \<open>0X\<close> that selects base 16, and the longest run of digits of the
  base is read. \<open>None\<close> is NaN, the answer when there is no digit. The rounding to a double of
  an integer beyond \<open>2^53\<close> is left out: for a run of digits that long the source passes on
  the nearest double, or Infinity, where this function keeps the integer.
\<close>

definition digit_value :: "16 word \<Rightarrow> nat" where
  "digit_value c =
     (if 0x30 \<le> c \<and> c \<le> 0x39 then unat c - 0x30
      else if 0x61 \<le> c \<and> c \<le> 0x7A then unat c - 0x61 + 10
      else if 0x41 \<le> c \<and> c \<le> 0x5A then unat c - 0x41 + 10
      else 36)"

definition parseInt :: "jsstring \<Rightarrow> int option" where
  "parseInt string =
     (let S = dropWhile is_whitespace string;
          sign = (if take 1 S = lit ''-'' then - 1 else 1);
          S1 = (if take 1 S = lit ''+'' \<or> take 1 S = lit ''-'' then drop 1 S else S);
          hex = (take 2 S1 = lit ''0x'' \<or> take 2 S1 = lit ''0X'');
          R = (if hex then 16 else 10);
          S2 = (if hex then drop 2 S1 else S1);
          Z = takeWhile (\<lambda>c. digit_value c < R) S2
      in if Z = [] then None
         else Some (sign * int (foldl (\<lambda>n c. n * R + digit_value c) 0 Z)))"








section \<open>The tool-call handler of the server\<close>

text \<open>The \<open>arguments\<close> object of a tool call; a property that is absent is \<open>None\<close>.\<close>

record chat_message =
  role :: "jsstring option"
  content :: "jsstring option"

record tool_args =
  prompt :: "jsstring option"
  model_id :: "jsstring option"
  max_new_tokens :: "jsnum option"
  temperature :: "jsnum option"
  top_p :: "jsnum option"
  top_k :: "jsnum option"
  texts :: "jsstring list option"
  messages :: "chat_message option list option"

text \<open>\<open>request.params\<close>: the name of the tool and its arguments, which may be missing.\<close>

record request =
  name :: jsstring
  arguments :: "tool_args option"

text \<open>The parameters the handler passes to \<open>generateText\<close> and to \<open>embedText\<close>.\<close>

record gen_params =
  p_input :: "jsstring option"
  p_modelId :: jsstring
  p_max_new_tokens :: jsnum
  p_temperature :: jsnum
  p_top_p :: "jsnum option"
  p_top_k :: "jsnum option"
  p_stop_sequences :: "jsstring list option"
  p_spaceId :: "jsstring option"
  p_projectId :: "jsstring option"

record embed_params =
  q_inputs :: "jsstring list option"
  q_modelId :: jsstring
  q_spaceId :: "jsstring option"
  q_projectId :: "jsstring option"

text \<open>
  What the service answers. \<open>gen_result\<close> is \<open>response.result\<close> of \<open>generateText\<close>:
  \<open>None\<close> when the response has no \<open>result\<close>, else its \<open>results\<close>, each with its
  \<open>generated_text\<close>. A foundation model has the four properties the handler copies.
\<close>

record gen_response =
  gen_result :: "jsstring option list option option"

record model_spec =
  spec_model_id :: "jsstring option"
  spec_label :: "jsstring option"
  spec_provider :: "jsstring option"
  spec_tasks :: "jsstring list option"

record model_entry =
  entry_id :: "jsstring option"
  entry_name :: "jsstring option"
  entry_provider :: "jsstring option"
  entry_tasks :: "jsstring list option"

text \<open>
  The surroundings of the server: its configuration, the construction of the client by the
  library from the API key (\<open>WatsonXAI.newInstance\<close> with a \<open>new IamAuthenticator\<close>, which
  raises on a key the library refuses), the three operations of the client (each may raise),
  \<open>JSON.stringify\<close> on the two values the handler prints, and the \<open>message\<close> of a raised
  error (what is raised is taken to be an error object). \<open>'r\<close> is the \<open>result\<close> of an
  \<open>embedText\<close> response.
\<close>

record 'r server_env =
  API_KEY :: "jsstring option"
  PROJECT_ID :: "jsstring option"
  SPACE_ID :: "jsstring option"
  newInstance :: "jsstring \<Rightarrow> error + unit"
  client_generateText :: "gen_params \<Rightarrow> error + gen_response"
  client_listFoundationModelSpecs :: "error + model_spec option list option option"
  client_embedText :: "embed_params \<Rightarrow> error + 'r option"
  stringify_models :: "model_entry list \<Rightarrow> jsstring"
  stringify_result :: "'r \<Rightarrow> jsstring"
  message :: "error \<Rightarrow> jsstring option"

text \<open>The handler's answer: \<open>{ content: [{ type, text }] }\<close>.\<close>

record content_item =
  item_type :: jsstring
  item_text :: "jsstring option"

record response =
  response_content :: "content_item list"

definition text_response :: "jsstring option \<Rightarrow> response" where
  "text_response t = \<lparr>response_content = [\<lparr>item_type = lit ''text'', item_text = t\<rparr>]\<rparr>"

text \<open>\<open>x || d\<close> for a number or \<open>undefined\<close> \<open>x\<close>: \<open>undefined\<close>, zero and NaN are false.\<close>

fun num_or :: "jsnum option \<Rightarrow> jsnum \<Rightarrow> jsnum" where
  "num_or None d = d"
| "num_or (Some NaN) d = d"
| "num_or (Some (Num x)) d = (if x = 0 then d else Num x)"
| "num_or (Some v) d = v"

text \<open>\<open>response.result.results?.[0]?.generated_text || ""\<close>; without a \<open>result\<close> it raises.\<close>

fun generated_text :: "gen_response \<Rightarrow> error + jsstring" where
  "generated_text r =
     (case gen_result r of
        None \<Rightarrow> Inl TypeError
      | Some None \<Rightarrow> Inr []
      | Some (Some []) \<Rightarrow> Inr []
      | Some (Some (t # ts)) \<Rightarrow> Inr (or_else t []))"

text \<open>
  The callback of \<open>args.messages.map\<close> on one chat message. Reading \<open>m.role\<close> of a missing
  message raises. For one of the three known roles the result is a template literal, in which
  a missing \<open>content\<close> is written as \<open>undefined\<close>; for any other role it is \<open>m.content\<close>
  itself, which may be \<open>undefined\<close>.
\<close>

fun format_message :: "chat_message option \<Rightarrow> error + jsstring option" where
  "format_message None = Inl TypeError"
| "format_message (Some m) =
     Inr (if role m = Some (lit ''system'') then Some (lit ''System: '' @ ToString (content m))
          else if role m = Some (lit ''user'') then Some (lit ''User: '' @ ToString (content m))
          else if role m = Some (lit ''assistant'') then Some (lit ''Assistant: '' @ ToString (content m))
          else content m)"

fun format_messages :: "chat_message option list \<Rightarrow> error + jsstring option list" where
  "format_messages [] = Inr []"
| "format_messages (m # ms) =
     (case format_message m of
        Inl err \<Rightarrow> Inl err
      | Inr l \<Rightarrow> (case format_messages ms of Inl err \<Rightarrow> Inl err | Inr ls \<Rightarrow> Inr (l # ls)))"

text \<open>An element of the array inside \<open>join\<close>: \<open>undefined\<close> is written as the empty string.\<close>

definition join_element :: "jsstring option \<Rightarrow> jsstring" where
  "join_element x = (case x of None \<Rightarrow> [] | Some t \<Rightarrow> t)"

text \<open>The copy of one foundation model into \<open>{ id, name, provider, tasks }\<close>.\<close>

fun model_entries :: "model_spec option list \<Rightarrow> error + model_entry list" where
  "model_entries [] = Inr []"
| "model_entries (None # ms) = Inl TypeError"
| "model_entries (Some m # ms) =
     (case model_entries ms of
        Inl err \<Rightarrow> Inl err
      | Inr es \<Rightarrow>
          Inr (\<lparr>entry_id = spec_model_id m, entry_name = spec_label m,
                entry_provider = spec_provider m, entry_tasks = spec_tasks m\<rparr> # es))"

text \<open>The \<open>spaceId\<close> and \<open>projectId\<close> added to the parameters: the space when set, else the project.\<close>

definition space_of :: "'r server_env \<Rightarrow> jsstring option" where
  "space_of e = (if truthy (SPACE_ID e) then SPACE_ID e else None)"

definition project_of :: "'r server_env \<Rightarrow> jsstring option" where
  "project_of e =
     (if truthy (SPACE_ID e) then None else if truthy (PROJECT_ID e) then PROJECT_ID e else None)"

text \<open>The \<open>try\<close> block of the handler: the \<open>switch\<close> on the tool's name.\<close>

definition handler_try :: "'r server_env \<Rightarrow> request \<Rightarrow> error + response" where
  "handler_try e req =
     (if name req = lit ''watsonx_generate'' then
        (case arguments req of
           None \<Rightarrow> Inl TypeError
         | Some args \<Rightarrow>
             (case client_generateText e
                     \<lparr>p_input = prompt args,
                      p_modelId = or_else (model_id args) (lit ''ibm/granite-13b-chat-v2''),
                      p_max_new_tokens = num_or (max_new_tokens args) (Num 500),
                      p_temperature = num_or (temperature args) (Num (7 / 10)),
                      p_top_p = Some (num_or (top_p args) (Num 1)),
                      p_top_k = Some (num_or (top_k args) (Num 50)),
                      p_stop_sequences = None,
                      p_spaceId = space_of e, p_projectId = project_of e\<rparr> of
                Inl err \<Rightarrow> Inl err
              | Inr r \<Rightarrow>
                  (case generated_text r of
                     Inl err \<Rightarrow> Inl err
                   | Inr generatedText \<Rightarrow> Inr (text_response (Some generatedText)))))
      else if name req = lit ''watsonx_list_models'' then
        (case client_listFoundationModelSpecs e of
           Inl err \<Rightarrow> Inl err
         | Inr None \<Rightarrow> Inl TypeError
         | Inr (Some None) \<Rightarrow> Inr (text_response (Some (stringify_models e [])))
         | Inr (Some (Some resources)) \<Rightarrow>
             (case model_entries resources of
                Inl err \<Rightarrow> Inl err
              | Inr models \<Rightarrow> Inr (text_response (Some (stringify_models e models)))))
      else if name req = lit ''watsonx_embeddings'' then
        (case arguments req of
           None \<Rightarrow> Inl TypeError
         | Some args \<Rightarrow>
             (case client_embedText e
                     \<lparr>q_inputs = texts args,
                      q_modelId = or_else (model_id args) (lit ''ibm/slate-125m-english-rtrvr''),
                      q_spaceId = space_of e, q_projectId = project_of e\<rparr> of
                Inl err \<Rightarrow> Inl err
              | Inr r \<Rightarrow> Inr (text_response (map_option (stringify_result e) r))))
      else if name req = lit ''watsonx_chat'' then
        (case arguments req of
           None \<Rightarrow> Inl TypeError
         | Some args \<Rightarrow>
             (case messages args of
                None \<Rightarrow> Inl TypeError
              | Some ms \<Rightarrow>
                  (case format_messages ms of
                     Inl err \<Rightarrow> Inl err
                   | Inr ls \<Rightarrow>
                       (case client_generateText e
                               \<lparr>p_input = Some (join [0x0A, 0x0A] (map join_element ls) @ [0x0A, 0x0A] @ lit ''Assistant:''),
                                p_modelId = or_else (model_id args) (lit ''ibm/granite-13b-chat-v2''),
                                p_max_new_tokens = num_or (max_new_tokens args) (Num 500),
                                p_temperature = num_or (temperature args) (Num (7 / 10)),
                                p_top_p = None,
                                p_top_k = None,
                                p_stop_sequences = Some [lit ''User:'', lit ''System:''],
                                p_spaceId = space_of e, p_projectId = project_of e\<rparr> of
                          Inl err \<Rightarrow> Inl err
                        | Inr r \<Rightarrow>
                            (case generated_text r of
                               Inl err \<Rightarrow> Inl err
                             | Inr generatedText \<Rightarrow> Inr (text_response (Some (trim generatedText))))))))
      else Inr (text_response (Some (lit ''Unknown tool: '' @ name req))))"

text \<open>
  \<open>getWatsonxClient()\<close>. The state is whether \<open>watsonxClient\<close> holds a client already.
  When it does not and there is an API key, the client is constructed, and what the
  construction raises is raised by \<open>getWatsonxClient\<close>. The result is whether a client is
  returned, rather than \<open>null\<close>.
\<close>

definition getWatsonxClient :: "'r server_env \<Rightarrow> bool \<Rightarrow> (error + bool) \<times> bool" where
  "getWatsonxClient e watsonxClient =
     (if \<not> watsonxClient \<and> truthy (API_KEY e) then
        (case newInstance e (ToString (API_KEY e)) of
           Inl err \<Rightarrow> (Inl err, watsonxClient)
         | Inr u \<Rightarrow> (Inr True, True))
      else (Inr watsonxClient, watsonxClient))"

text \<open>
  The handler. It calls \<open>getWatsonxClient\<close> before its \<open>try\<close>, so what that call raises
  leaves the handler. Without a client it answers that the key is missing; otherwise it runs
  the \<open>try\<close> block and its \<open>catch\<close> turns whatever was raised there into an error text.
\<close>

definition handler :: "'r server_env \<Rightarrow> request \<Rightarrow> bool \<Rightarrow> (error + response) \<times> bool" where
  "handler e req watsonxClient =
     (case getWatsonxClient e watsonxClient of
        (Inl err, c) \<Rightarrow> (Inl err, c)
      | (Inr client, c) \<Rightarrow>
          if \<not> client then
            (Inr (text_response (Some (lit ''Error: watsonx.ai not configured. Set WATSONX_API_KEY environment variable.''))), c)
          else
            (case handler_try e req of
               Inr r \<Rightarrow> (Inr r, c)
             | Inl err \<Rightarrow>
                 (Inr (text_response (Some (lit ''Error calling watsonx.ai: '' @ ToString (message e err)))), c)))"

section \<open>Example surroundings\<close>

text \<open>
  A configured process whose documents directory lists three files, of which \<open>a.txt\<close> can
  be read, and whose service answers every text with the vector \<open>[1, 0]\<close>. Variants of it
  have no readable file, a file of 600 code units, or a service that answers without results.
  The states hold no index file, or an index file of one or two documents. The vectors of the
  examples have the components 0 and 1 only, on which the arithmetic of doubles is exact, so
  the rounding of the examples is \<open>Num\<close>.
\<close>

definition example_env :: env where
  "example_env =
     \<lparr>WATSONX_API_KEY = Some (lit ''key''), WATSONX_SPACE_ID = Some (lit ''space''),
      readdir = Inr [lit ''a.txt'', lit ''b.md'', lit ''c.txt''],
      readFile = (\<lambda>p. if p = DOCUMENTS_PATH @ lit ''/a.txt'' then Inr (lit ''alpha'') else Inl IOError),
      embedText = (\<lambda>cs ts. Inr (Some (map (\<lambda>t. Vec [1, 0]) ts))),
      generateText = (\<lambda>cs p. Inr (Some (lit ''answer''))),
      writable = True,
      toISOString = (\<lambda>n. lit ''2024-01-01T00:00:00.000Z'')\<rparr>"

definition unreadable_env :: env where
  "unreadable_env = example_env\<lparr>readFile := (\<lambda>p. Inl IOError)\<rparr>"

definition long_env :: env where
  "long_env =
     example_env\<lparr>readFile := (\<lambda>p. if p = DOCUMENTS_PATH @ lit ''/a.txt''
                                   then Inr (replicate 600 0x61) else Inl IOError)\<rparr>"

definition no_results_env :: env where
  "no_results_env = example_env\<lparr>embedText := (\<lambda>cs ts. Inr None)\<rparr>"

definition empty_state :: state where
  "empty_state = \<lparr>index_file = None, calls = [], console = [], clock_reads = 0\<rparr>"

definition example_doc :: doc where
  "example_doc = \<lparr>filename = lit ''a.txt'', preview = lit ''alpha'', length_d = 5\<rparr>"

definition undefined_slot_index :: index where
  "undefined_slot_index =
     \<lparr>documents = [example_doc], embeddings = [Undefined],
      metadata = \<lparr>created = Some (lit ''2024-01-01T00:00:00.000Z''), updated = None, count_m = None\<rparr>\<rparr>"

definition misaligned_state :: state where
  "misaligned_state =
     \<lparr>index_file = Some (JsonText \<lparr>json_documents = [example_doc], json_embeddings = [],
                                   json_metadata = \<lparr>created = None, updated = None, count_m = None\<rparr>\<rparr>),
      calls = [], console = [], clock_reads = 0\<rparr>"

definition indexed_json :: json_index where
  "indexed_json =
     \<lparr>json_documents = [example_doc], json_embeddings = [JVec [1, 0]],
      json_metadata = \<lparr>created = None, updated = None, count_m = Some 1\<rparr>\<rparr>"

definition indexed_state :: state where
  "indexed_state =
     \<lparr>index_file = Some (JsonText indexed_json), calls = [], console = [], clock_reads = 0\<rparr>"

definition two_docs_json :: json_index where
  "two_docs_json =
     \<lparr>json_documents = [example_doc, \<lparr>filename = lit ''c.txt'', preview = lit ''gamma'', length_d = 5\<rparr>],
      json_embeddings = [JVec [0, 1], JVec [1, 0]],
      json_metadata = \<lparr>created = None, updated = None, count_m = Some 2\<rparr>\<rparr>"

definition two_docs_state :: state where
  "two_docs_state =
     \<lparr>index_file = Some (JsonText two_docs_json), calls = [], console = [], clock_reads = 0\<rparr>"

definition zero_vector_json :: json_index where
  "zero_vector_json =
     \<lparr>json_documents = [example_doc, \<lparr>filename = lit ''c.txt'', preview = lit ''gamma'', length_d = 5\<rparr>],
      json_embeddings = [JVec [0, 0], JVec [1, 0]],
      json_metadata = \<lparr>created = None, updated = None, count_m = Some 2\<rparr>\<rparr>"

definition zero_vector_state :: state where
  "zero_vector_state =
     \<lparr>index_file = Some (JsonText zero_vector_json), calls = [], console = [], clock_reads = 0\<rparr>"

text \<open>
  A configured server whose library refuses a key that starts or ends with a curly bracket
  or a double quote, and the same server with the key \<open>{key}\<close>.
\<close>

definition server_env_example :: "unit server_env" where
  "server_env_example =
     \<lparr>API_KEY = Some (lit ''key''), PROJECT_ID = None, SPACE_ID = Some (lit ''space''),
      newInstance = (\<lambda>key. if take 1 key = [0x7B] \<or> take 1 key = [0x22] \<or>
                               take 1 (rev key) = [0x7D] \<or> take 1 (rev key) = [0x22]
                            then Inl SdkError else Inr ()),
      client_generateText = (\<lambda>p. Inl ServiceError),
      client_listFoundationModelSpecs = Inr (Some None),
      client_embedText = (\<lambda>p. Inr (Some ())),
      stringify_models = (\<lambda>ms. lit ''[]''),
      stringify_result = (\<lambda>u. lit ''{}''),
      message = (\<lambda>err. Some (lit ''failed''))\<rparr>"

definition refused_key_env :: "unit server_env" where
  "refused_key_env = server_env_example\<lparr>API_KEY := Some ([0x7B] @ lit ''key'' @ [0x7D])\<rparr>"

section \<open>Facts about the operations\<close>

lemma console_log_fields [simp]:
  "calls (console_log t s) = calls s"
  "index_file (console_log t s) = index_file s"
  "clock_reads (console_log t s) = clock_reads s"
  "console (console_log t s) = console s @ [Log t]"
  by (simp_all add: console_log_def)

lemma loadIndex_cases:
  "loadIndex e s =
     (case index_file s of
        Some (JsonText j) \<Rightarrow>
          (Inr \<lparr>documents = json_documents j, embeddings = map json_to_emb (json_embeddings j),
                metadata = json_metadata j\<rparr>, s)
      | _ \<Rightarrow>
          (Inr \<lparr>documents = [], embeddings = [],
                metadata = \<lparr>created = Some (toISOString e (clock_reads s)), updated = None,
                            count_m = Some 0\<rparr>\<rparr>,
           s\<lparr>clock_reads := clock_reads s + 1\<rparr>))"
  by (simp add: loadIndex_def loadIndex_try_def new_Date_def split: option.splits file_text.splits)

lemma loadIndex_console_log: "fst (loadIndex e (console_log t s)) = fst (loadIndex e s)"
  by (simp add: loadIndex_cases split: option.splits file_text.splits)

lemma loadIndex_fields [simp]:
  "calls (snd (loadIndex e s)) = calls s"
  "console (snd (loadIndex e s)) = console s"
  "index_file (snd (loadIndex e s)) = index_file s"
  by (simp_all add: loadIndex_cases split: option.splits file_text.splits)

lemma saveIndex_cases:
  "saveIndex e i s =
     (let saved = i\<lparr>metadata := (metadata i)\<lparr>updated := Some (toISOString e (clock_reads s)),
                                              count_m := Some (length (documents i))\<rparr>\<rparr>
      in if writable e
         then (Inr saved, s\<lparr>clock_reads := clock_reads s + 1, index_file := Some (JSON_stringify saved)\<rparr>)
         else (Inl IOError, s\<lparr>clock_reads := clock_reads s + 1\<rparr>))"
  by (simp add: saveIndex_def new_Date_def Let_def)

lemma json_to_emb_to_json: "json_to_emb (emb_to_json x) = (if x = Undefined then Null else x)"
  by (cases x) simp_all

lemma set_js_slice: "set (js_slice xs a b) \<subseteq> set xs"
  by (auto simp: js_slice_def Let_def dest!: in_set_takeD in_set_dropD)

lemma js_slice_from_0: "0 \<le> k \<Longrightarrow> js_slice xs 0 k = take (nat k) xs"
  by (auto simp: js_slice_def Let_def min_def)


subsection \<open>The loop of the build\<close>

lemma build_loop_aligned:
  "build_loop e fs i ix s = (Inr ix', s') \<Longrightarrow>
   length (documents ix) = length (embeddings ix) \<Longrightarrow>
   length (documents ix') = length (embeddings ix')"
proof (induction e fs i ix s rule: build_loop.induct)
  case (1 e txtFiles i ix s)
  from "1.prems" "1.IH" show ?case
    by (subst (asm) build_loop.simps)
       (auto simp: Let_def push_batch_def split: if_splits prod.splits sum.splits)
qed

lemma read_batch_truncated: "t \<in> set (fst (read_batch e batch)) \<Longrightarrow> length t \<le> 500"
  by (induction batch) (auto simp: Let_def split: prod.splits sum.splits)


lemma read_batch_unreadable:
  "\<forall>f \<in> set batch. \<exists>err. readFile e (DOCUMENTS_PATH @ lit ''/'' @ f) = Inl err \<Longrightarrow>
   read_batch e batch = ([], [])"
  by (induction batch) auto

lemma generateEmbeddings_calls:
  "generateEmbeddings e txts s = (r, s') \<Longrightarrow>
   calls s' = calls s \<or> calls s' = calls s @ [EmbedText txts]"
  by (auto simp: generateEmbeddings_def Let_def split: if_splits sum.splits)

lemma build_loop_calls:
  "build_loop e fs i ix s = (r, s') \<Longrightarrow>
   \<exists>new. calls s' = calls s @ new \<and> (\<forall>c \<in> set new. \<exists>ts. c = EmbedText ts \<and> (\<forall>t \<in> set ts. length t \<le> 500))"
proof (induction e fs i ix s rule: build_loop.induct)
  case (1 e txtFiles i ix s)
  show ?case
  proof (cases "i < length txtFiles")
    case False
    with "1.prems" show ?thesis
      by (subst (asm) build_loop.simps) auto
  next
    case True
    obtain txts docs where rb: "read_batch e (js_slice txtFiles (int i) (int i + 10)) = (txts, docs)"
      by (cases "read_batch e (js_slice txtFiles (int i) (int i + 10))") auto
    have tr: "\<forall>t \<in> set txts. length t \<le> 500"
      using read_batch_truncated [of _ e "js_slice txtFiles (int i) (int i + 10)"] rb by simp
    show ?thesis
    proof (cases "0 < length txts")
      case False
      with True rb "1.prems" "1.IH"(2) [OF True refl refl rb [symmetric]] show ?thesis
        by (subst (asm) build_loop.simps) (simp add: Let_def)
    next
      case nonempty: True
      define s1 where "s1 = console_log (lit ''   Processing batch '' @ show_nat (i div 10 + 1) @ lit ''/''
                          @ show_nat ((length txtFiles + 9) div 10) @ lit ''...'') s"
      obtain g s2 where ge: "generateEmbeddings e txts s1 = (g, s2)"
        by (cases "generateEmbeddings e txts s1") auto
      from generateEmbeddings_calls [OF ge]
      have c2: "\<exists>new. calls s2 = calls s @ new \<and> (\<forall>c \<in> set new. \<exists>ts. c = EmbedText ts \<and> (\<forall>t \<in> set ts. length t \<le> 500))"
        using tr by (auto simp: s1_def)
      show ?thesis
      proof (cases g)
        case (Inl err)
        with True nonempty rb ge "1.prems" c2 show ?thesis
          by (subst (asm) build_loop.simps) (simp add: Let_def s1_def)
      next
        case (Inr es)
        with True nonempty rb ge "1.prems"
        have "build_loop e txtFiles (i + 10) (push_batch docs es ix) s2 = (r, s')"
          by (subst (asm) build_loop.simps) (simp add: Let_def s1_def)
        from "1.IH"(1) [OF True refl refl rb [symmetric] nonempty s1_def ge [symmetric] Inr this]
        obtain new where "calls s' = calls s2 @ new" "(\<forall>c \<in> set new. \<exists>ts. c = EmbedText ts \<and> (\<forall>t \<in> set ts. length t \<le> 500))" by auto
        with c2 show ?thesis
          by auto
      qed
    qed
  qed
qed

lemma build_loop_unreadable:
  "\<forall>f \<in> set fs. \<exists>err. readFile e (DOCUMENTS_PATH @ lit ''/'' @ f) = Inl err \<Longrightarrow>
   build_loop e fs i ix s = (Inr ix, s)"
proof (induction e fs i ix s rule: build_loop.induct)
  case (1 e txtFiles i ix s)
  have rb: "read_batch e (js_slice txtFiles (int i) (int i + 10)) = ([], [])"
    using "1.prems" set_js_slice [of txtFiles "int i" "int i + 10"]
    by (intro read_batch_unreadable) blast
  show ?case
  proof (cases "i < length txtFiles")
    case True
    from "1.IH"(2) [OF True refl refl rb [symmetric]] "1.prems" True rb show ?thesis
      by (subst build_loop.simps) (simp add: Let_def)
  next
    case False
    then show ?thesis by (subst build_loop.simps) simp
  qed
qed


lemma buildIndex_aligned:
  "buildIndex e maxDocs s = (Inr ix, s') \<Longrightarrow>
   length (documents ix) = length (embeddings ix) \<and> index_file s' = Some (JSON_stringify ix)"
  by (auto simp: buildIndex_def Let_def new_Date_def saveIndex_cases
      split: sum.splits prod.splits if_splits dest!: build_loop_aligned)

lemma buildIndex_calls:
  "buildIndex e maxDocs s = (r, s') \<Longrightarrow>
   \<exists>new. calls s' = calls s @ new \<and>
     (\<forall>c \<in> set new. \<exists>ts. c = EmbedText ts \<and> (\<forall>t \<in> set ts. length t \<le> 500))"
  by (auto simp: buildIndex_def Let_def new_Date_def saveIndex_cases
      split: sum.splits prod.splits if_splits dest!: build_loop_calls)

lemma buildIndex_empty:
  assumes "readdir e = Inr files" and "writable e"
    and "maxDocs = 0 \<or>
         (\<forall>f \<in> set files. endsWith f (lit ''.txt'') \<longrightarrow>
            (\<exists>err. readFile e (DOCUMENTS_PATH @ lit ''/'' @ f) = Inl err))"
  shows "\<exists>ix s'. buildIndex e maxDocs s = (Inr ix, s') \<and> documents ix = [] \<and> embeddings ix = [] \<and>
           count_m (metadata ix) = Some 0 \<and> index_file s' = Some (JSON_stringify ix)"
proof -
  let ?txt = "js_slice (filter (\<lambda>f. endsWith f (lit ''.txt'')) files) 0 maxDocs"
  have "\<forall>f \<in> set ?txt. \<exists>err. readFile e (DOCUMENTS_PATH @ lit ''/'' @ f) = Inl err"
  proof (cases "maxDocs = 0")
    case True
    then show ?thesis by (simp add: js_slice_def)
  next
    case False
    with assms(3) set_js_slice [of "filter (\<lambda>f. endsWith f (lit ''.txt'')) files" 0 maxDocs]
    show ?thesis by auto
  qed
  from build_loop_unreadable [OF this] assms(1,2) show ?thesis
    by (simp add: buildIndex_def Let_def new_Date_def saveIndex_cases)
qed


subsection \<open>Searching an empty index, and the requests of a search\<close>

lemma queryIndex_empty:
  assumes "fst (loadIndex e s) = Inr ix" and "documents ix = []"
  shows "fst (queryIndex rnd e query topK s) = Inr [] \<and>
         calls (snd (queryIndex rnd e query topK s)) = calls s \<and>
         console (snd (queryIndex rnd e query topK s)) =
           console s @ [Log ([0xD83D, 0xDD0D] @ lit '' Searching: '' @ [0x22] @ query @ [0x22]),
                        Log (lit ''   Index is empty. Run '' @ [0x27] @ lit ''build'' @ [0x27] @ lit '' first.'')]"
proof -
  let ?s1 = "console_log ([0xD83D, 0xDD0D] @ lit '' Searching: '' @ [0x22] @ query @ [0x22]) s"
  obtain r s2 where l: "loadIndex e ?s1 = (r, s2)" by (cases "loadIndex e ?s1") auto
  have "r = Inr ix" using l assms(1) loadIndex_console_log [of e _ s] by (metis fst_conv)
  moreover have "calls s2 = calls s" "console s2 = console ?s1"
    using l loadIndex_fields [of e ?s1] by simp_all
  ultimately show ?thesis
    using assms(2) l by (simp add: queryIndex_def Let_def)
qed

lemma queryIndex_calls:
  "calls (snd (queryIndex rnd e query topK s)) = calls s \<or>
   calls (snd (queryIndex rnd e query topK s)) = calls s @ [EmbedText [query]]"
proof -
  let ?s1 = "console_log ([0xD83D, 0xDD0D] @ lit '' Searching: '' @ [0x22] @ query @ [0x22]) s"
  obtain r s2 where l: "loadIndex e ?s1 = (r, s2)" by (cases "loadIndex e ?s1") auto
  have c: "calls s2 = calls s" using l loadIndex_fields [of e ?s1] by simp
  show ?thesis
    using l c
    by (auto simp: queryIndex_def Let_def generateEmbeddings_def
        split: sum.splits prod.splits if_splits)
qed

lemma queryIndex_submits_query:
  assumes "fst (loadIndex e s) = Inr ix" and "documents ix \<noteq> []" and "getClient e"
  shows "calls (snd (queryIndex rnd e query topK s)) = calls s @ [EmbedText [query]]"
proof -
  let ?s1 = "console_log ([0xD83D, 0xDD0D] @ lit '' Searching: '' @ [0x22] @ query @ [0x22]) s"
  obtain r s2 where l: "loadIndex e ?s1 = (r, s2)" by (cases "loadIndex e ?s1") auto
  have c: "calls s2 = calls s" using l loadIndex_fields [of e ?s1] by simp
  have "r = Inr ix" using l assms(1) loadIndex_console_log [of e _ s] by (metis fst_conv)
  then show ?thesis
    using l c assms(2,3)
    by (auto simp: queryIndex_def Let_def generateEmbeddings_def
        split: sum.splits prod.splits if_splits)
qed

subsection \<open>The example build\<close>

lemma txt_files_example:
  "filter (\<lambda>f. endsWith f (lit ''.txt'')) [lit ''a.txt'', lit ''b.md'', lit ''c.txt'']
     = [lit ''a.txt'', lit ''c.txt'']"
  by (simp add: endsWith_def lit_def)

lemma example_paths:
  "(DOCUMENTS_PATH @ lit ''/'' @ lit ''a.txt'' = DOCUMENTS_PATH @ lit ''/a.txt'') = True"
  "(DOCUMENTS_PATH @ lit ''/'' @ lit ''c.txt'' = DOCUMENTS_PATH @ lit ''/a.txt'') = False"
  by (simp_all add: lit_def)

lemma example_build:
  assumes "2 \<le> maxDocs"
  shows "fst (buildIndex example_env maxDocs s) =
           Inr \<lparr>documents = [example_doc], embeddings = [Vec [1, 0]],
                metadata = \<lparr>created = Some (lit ''2024-01-01T00:00:00.000Z''),
                            updated = Some (lit ''2024-01-01T00:00:00.000Z''),
                            count_m = Some 1\<rparr>\<rparr>"
    and "calls (snd (buildIndex example_env maxDocs s)) = calls s @ [EmbedText [lit ''alpha'']]"
proof -
  have sl: "js_slice [lit ''a.txt'', lit ''c.txt''] 0 maxDocs = [lit ''a.txt'', lit ''c.txt'']"
    using assms by (simp add: js_slice_def Let_def)
  have rb: "read_batch example_env [lit ''a.txt'', lit ''c.txt''] = ([lit ''alpha''], [example_doc])"
    by (simp add: example_env_def example_paths example_doc_def)
       (simp add: lit_def replace_newlines_def)
  have bl: "build_loop example_env [lit ''a.txt'', lit ''c.txt''] 0 ix0 s0 =
          (Inr (push_batch [example_doc] [Vec [1, 0]] ix0),
           (console_log (lit ''   Processing batch '' @ show_nat 1 @ lit ''/'' @ show_nat 1 @ lit ''...'') s0)
             \<lparr>calls := calls s0 @ [EmbedText [lit ''alpha'']]\<rparr>)" for ix0 s0
  proof -
    have "js_slice [lit ''a.txt'', lit ''c.txt''] (int 0) (int 0 + 10) = [lit ''a.txt'', lit ''c.txt'']"
      by (simp add: js_slice_def Let_def)
    moreover have "generateEmbeddings example_env [lit ''alpha''] s1 =
        (Inr [Vec [1, 0]], s1\<lparr>calls := calls s1 @ [EmbedText [lit ''alpha'']]\<rparr>)" for s1
      by (simp add: generateEmbeddings_def getClient_def example_env_def Let_def lit_def)
    moreover have "build_loop example_env [lit ''a.txt'', lit ''c.txt''] (0 + 10) ix1 s1 = (Inr ix1, s1)"
      for ix1 s1
      by (subst build_loop.simps) simp
    ultimately show ?thesis
      by (subst build_loop.simps) (simp add: rb Let_def console_log_def del: read_batch.simps)
  qed
  have env: "readdir example_env = Inr [lit ''a.txt'', lit ''b.md'', lit ''c.txt'']"
    "writable example_env" "toISOString example_env n = lit ''2024-01-01T00:00:00.000Z''" for n
    by (simp_all add: example_env_def)
  have tf: "js_slice (filter (\<lambda>f. endsWith f (lit ''.txt'')) [lit ''a.txt'', lit ''b.md'', lit ''c.txt'']) 0 maxDocs
              = [lit ''a.txt'', lit ''c.txt'']"
    by (simp only: txt_files_example sl)
  show "fst (buildIndex example_env maxDocs s) =
           Inr \<lparr>documents = [example_doc], embeddings = [Vec [1, 0]],
                metadata = \<lparr>created = Some (lit ''2024-01-01T00:00:00.000Z''),
                            updated = Some (lit ''2024-01-01T00:00:00.000Z''),
                            count_m = Some 1\<rparr>\<rparr>"
    by (simp add: buildIndex_def env tf bl Let_def new_Date_def saveIndex_cases
        push_batch_def emb_at_def del: filter.simps)
  show "calls (snd (buildIndex example_env maxDocs s)) = calls s @ [EmbedText [lit ''alpha'']]"
    by (simp add: buildIndex_def env tf bl Let_def new_Date_def saveIndex_cases
        push_batch_def emb_at_def del: filter.simps)
qed

lemma long_build:
  "calls (snd (buildIndex long_env 5 empty_state)) = [EmbedText [replicate 500 0x61]]"
proof -
  have env: "readdir long_env = Inr [lit ''a.txt'', lit ''b.md'', lit ''c.txt'']"
    "writable long_env" "toISOString long_env n = lit ''2024-01-01T00:00:00.000Z''" for n
    by (simp_all add: long_env_def example_env_def)
  have tf: "js_slice (filter (\<lambda>f. endsWith f (lit ''.txt'')) [lit ''a.txt'', lit ''b.md'', lit ''c.txt'']) 0 5
              = [lit ''a.txt'', lit ''c.txt'']"
    by (simp only: txt_files_example) (simp add: js_slice_def Let_def)
  have rb: "fst (read_batch long_env [lit ''a.txt'', lit ''c.txt'']) = [replicate 500 0x61]"
    by (simp add: long_env_def example_env_def) (simp add: lit_def)
  obtain docs where rb': "read_batch long_env [lit ''a.txt'', lit ''c.txt''] = ([replicate 500 0x61], docs)"
    using rb by (cases "read_batch long_env [lit ''a.txt'', lit ''c.txt'']") auto
  have bl: "calls (snd (build_loop long_env [lit ''a.txt'', lit ''c.txt''] 0 ix0 s0)) =
          calls s0 @ [EmbedText [replicate 500 0x61]]" for ix0 s0
  proof -
    have "js_slice [lit ''a.txt'', lit ''c.txt''] (int 0) (int 0 + 10) = [lit ''a.txt'', lit ''c.txt'']"
      by (simp add: js_slice_def Let_def)
    moreover have "generateEmbeddings long_env [replicate 500 0x61] s1 =
        (Inr [Vec [1, 0]], s1\<lparr>calls := calls s1 @ [EmbedText [replicate 500 0x61]]\<rparr>)" for s1
      by (simp add: generateEmbeddings_def getClient_def long_env_def example_env_def Let_def lit_def)
    moreover have "build_loop long_env [lit ''a.txt'', lit ''c.txt''] (0 + 10) ix1 s1 = (Inr ix1, s1)"
      for ix1 s1
      by (subst build_loop.simps) simp
    ultimately show ?thesis
      by (subst build_loop.simps) (simp add: rb' Let_def console_log_def del: read_batch.simps)
  qed
  define ix0 where "ix0 = \<lparr>documents = [], embeddings = [],
                   metadata = \<lparr>created = Some (lit ''2024-01-01T00:00:00.000Z''), updated = None,
                               count_m = None\<rparr>\<rparr>"
  define s5 where "s5 = snd (new_Date long_env
     (console_log (lit ''   Found '' @ show_nat (length [lit ''a.txt'', lit ''c.txt'']) @ lit '' text files'')
       (console_log (lit ''   Max documents: '' @ show_int 5)
         (console_log (lit ''   Source: '' @ DOCUMENTS_PATH)
           (console_log ([0xD83D, 0xDCDA] @ lit '' Building embedding index...'') empty_state)))))"
  obtain r s6 where l: "build_loop long_env [lit ''a.txt'', lit ''c.txt''] 0 ix0 s5 = (r, s6)"
    by (cases "build_loop long_env [lit ''a.txt'', lit ''c.txt''] 0 ix0 s5") auto
  have c6: "calls s6 = [EmbedText [replicate 500 0x61]]"
    using bl [of ix0 s5] l by (simp add: s5_def new_Date_def empty_state_def)
  have "buildIndex long_env 5 empty_state =
          (case (r, s6) of
             (Inl err, s6) \<Rightarrow> (Inl err, s6)
           | (Inr built, s6) \<Rightarrow>
               (case saveIndex long_env built s6 of
                  (Inl err, s7) \<Rightarrow> (Inl err, s7)
                | (Inr saved, s7) \<Rightarrow>
                    (Inr saved,
                     console_log (lit ''   Saved to: '' @ INDEX_PATH)
                       (console_log ([0x000A, 0x2705] @ lit '' Index built with ''
                          @ show_nat (length (documents saved)) @ lit '' documents'') s7))))"
    unfolding buildIndex_def env sum.case tf Let_def l [symmetric] s5_def ix0_def
    by (simp add: new_Date_def env)
  then show ?thesis
    using c6 by (cases r) (simp_all add: saveIndex_cases Let_def env)
qed

subsection \<open>The argument of the build command\<close>



lemma parseInt_no_digit:
  assumes "a = [] \<or> (\<not> is_whitespace (hd a) \<and> hd a \<noteq> 0x2B \<and> hd a \<noteq> 0x2D \<and>
                     \<not> (0x30 \<le> hd a \<and> hd a \<le> 0x39))"
  shows "parseInt a = None"
proof (cases a)
  case Nil
  then show ?thesis by (simp add: parseInt_def Let_def lit_def)
next
  case (Cons c cs)
  with assms have c: "\<not> is_whitespace c" "c \<noteq> 0x2B" "c \<noteq> 0x2D" "\<not> (0x30 \<le> c \<and> c \<le> 0x39)"
    by simp_all
  then have "c \<noteq> 0x30" by auto
  with c Cons show ?thesis
    by (auto simp add: parseInt_def Let_def lit_def digit_value_def)
qed

subsection \<open>The comparison of similarities and the sort\<close>

lemma js_ge_trans: "js_ge x y \<Longrightarrow> js_ge y z \<Longrightarrow> js_ge x z"
  by (cases x; cases y; cases z) simp_all

lemma js_ge_total: "x \<noteq> NaN \<Longrightarrow> y \<noteq> NaN \<Longrightarrow> js_ge x y \<or> js_ge y x"
  by (cases x; cases y) auto

lemma positive_by_similarity:
  "similarity a \<noteq> NaN \<Longrightarrow> similarity b \<noteq> NaN \<Longrightarrow>
   js_positive (SortCompare by_similarity a b) = (\<not> js_ge (similarity a) (similarity b))"
  by (cases "similarity a"; cases "similarity b") (auto simp: SortCompare_def by_similarity_def)

lemma mset_sort_insert: "mset (sort_insert c x ys) = add_mset x (mset ys)"
  by (induction ys) auto

lemma mset_js_sort: "mset (js_sort c xs) = mset xs"
  by (induction xs) (auto simp: mset_sort_insert)

lemma set_js_sort: "set (js_sort c xs) = set xs"
  by (metis mset_js_sort set_mset_mset)

lemma length_js_sort: "length (js_sort c xs) = length xs"
  by (metis mset_js_sort size_mset)

lemma descending_sort_insert:
  assumes "\<forall>r \<in> set (x # ys). similarity r \<noteq> NaN"
    and "sorted_wrt (\<lambda>a b. js_ge (similarity a) (similarity b)) ys"
  shows "sorted_wrt (\<lambda>a b. js_ge (similarity a) (similarity b)) (sort_insert by_similarity x ys)"
  using assms
proof (induction ys)
  case Nil
  then show ?case by simp
next
  case (Cons y ys)
  show ?case
  proof (cases "js_positive (SortCompare by_similarity x y)")
    case True
    with Cons.prems have behind: "js_ge (similarity y) (similarity x)"
      using positive_by_similarity [of x y] js_ge_total [of "similarity x" "similarity y"] by auto
    have "set (sort_insert by_similarity x ys) = insert x (set ys)"
      by (metis mset_sort_insert set_mset_add_mset_insert set_mset_mset)
    with True behind Cons show ?thesis by auto
  next
    case False
    with Cons.prems have front: "js_ge (similarity x) (similarity y)"
      using positive_by_similarity [of x y] by auto
    with False Cons.prems show ?thesis
      by (auto intro: js_ge_trans)
  qed
qed

lemma descending_js_sort:
  "\<forall>r \<in> set xs. similarity r \<noteq> NaN \<Longrightarrow>
   sorted_wrt (\<lambda>a b. js_ge (similarity a) (similarity b)) (js_sort by_similarity xs)"
proof (induction xs)
  case Nil
  then show ?case by simp
next
  case (Cons x xs)
  then show ?case
    by (simp add: descending_sort_insert set_js_sort)
qed

lemma sort_insert_position:
  "\<exists>k \<le> length ys. sort_insert c x ys = take k ys @ x # drop k ys"
proof (induction ys)
  case Nil
  then show ?case by simp
next
  case (Cons y ys)
  then obtain k where k: "k \<le> length ys" "sort_insert c x ys = take k ys @ x # drop k ys"
    by blast
  show ?case
  proof (cases "js_positive (SortCompare c x y)")
    case True
    with k show ?thesis
      by (intro exI [of _ "Suc k"]) simp
  next
    case False
    then show ?thesis
      by (intro exI [of _ 0]) simp
  qed
qed

lemma distinct_insert_at:
  assumes "distinct zs" and "z \<notin> set zs"
  shows "distinct (take k zs @ z # drop k zs)"
proof -
  have "set (take k zs) \<inter> set (drop k zs) = {}"
    using assms(1) by (simp add: set_take_disj_set_drop_if_distinct)
  moreover have "z \<notin> set (take k zs)" "z \<notin> set (drop k zs)"
    using assms(2) by (auto dest: in_set_takeD in_set_dropD)
  ultimately show ?thesis
    using assms(1) by simp
qed

lemma set_insert_at: "set (take k zs @ z # drop k zs) = insert z (set zs)"
proof -
  have "set (take k zs) \<union> set (drop k zs) = set zs"
    by (metis append_take_drop_id set_append)
  then show ?thesis
    by simp
qed

lemma js_sort_order:
  "\<exists>order. distinct order \<and> set order = {..<length xs} \<and> js_sort c xs = map ((!) xs) order"
proof (induction xs)
  case Nil
  then show ?case by simp
next
  case (Cons x xs)
  then obtain order where o: "distinct order" "set order = {..<length xs}"
    "js_sort c xs = map ((!) xs) order"
    by blast
  obtain k where k:
    "sort_insert c x (js_sort c xs) = take k (js_sort c xs) @ x # drop k (js_sort c xs)"
    using sort_insert_position [of "js_sort c xs" c x] by blast
  let ?shifted = "map Suc order"
  let ?new = "take k ?shifted @ 0 # drop k ?shifted"
  have sh: "map ((!) (x # xs)) ?shifted = js_sort c xs"
    using o(3) by (simp add: comp_def)
  then have "map ((!) (x # xs)) ?new = take k (js_sort c xs) @ x # drop k (js_sort c xs)"
    by (metis drop_map list.simps(9) map_append nth_Cons_0 take_map)
  moreover have "distinct ?new"
    using o(1) by (intro distinct_insert_at) (auto simp: distinct_map)
  moreover have "set ?new = {..<length (x # xs)}"
  proof -
    have "set ?new = insert 0 (Suc ` {..<length xs})"
      using o(2) by (simp only: set_insert_at set_map)
    also have "\<dots> = {..<Suc (length xs)}"
      by (simp only: lessThan_Suc_eq_insert_0)
    finally show ?thesis by simp
  qed
  ultimately show ?case
    using k by (intro exI [of _ ?new]) simp
qed

subsection \<open>The results of a search\<close>

lemma map_embeddings_Inr:
  "map_embeddings rnd q docs es i = Inr cands \<Longrightarrow>
   length cands = length es \<and>
   (\<forall>k < length es.
      doc_fields (cands ! k) = (if i + k < length docs then Some (docs ! (i + k)) else None) \<and>
      cosineSimilarity rnd q (es ! k) = Inr (similarity (cands ! k)))"
proof (induction es arbitrary: i cands)
  case Nil
  then show ?case by simp
next
  case (Cons em es)
  from Cons.prems obtain sim rs where
    sim: "cosineSimilarity rnd q em = Inr sim"
    and rs: "map_embeddings rnd q docs es (i + 1) = Inr rs"
    and cands: "cands = \<lparr>doc_fields = (if i < length docs then Some (docs ! i) else None),
                          similarity = sim\<rparr> # rs"
    by (auto split: sum.splits)
  from Cons.IH [OF rs] have len: "length rs = length es"
    and rest: "\<forall>k < length es.
      doc_fields (rs ! k) = (if i + 1 + k < length docs then Some (docs ! (i + 1 + k)) else None) \<and>
      cosineSimilarity rnd q (es ! k) = Inr (similarity (rs ! k))"
    by simp_all
  show ?case
  proof (intro conjI allI impI)
    show "length cands = length (em # es)" using len cands by simp
  next
    fix k assume "k < length (em # es)"
    then show "doc_fields (cands ! k) =
        (if i + k < length docs then Some (docs ! (i + k)) else None)"
      using rest cands by (cases k) simp_all
  next
    fix k assume "k < length (em # es)"
    then show "cosineSimilarity rnd q ((em # es) ! k) = Inr (similarity (cands ! k))"
      using rest cands sim by (cases k) simp_all
  qed
qed

lemma queryIndex_result:
  assumes "fst (loadIndex e s) = Inr ix" and "documents ix \<noteq> []" and "getClient e"
    and "embedText e (calls s) [query] = Inr answer"
    and "map_embeddings rnd (emb_at (case answer of None \<Rightarrow> [] | Some rs \<Rightarrow> rs) 0)
           (documents ix) (embeddings ix) 0 = Inr cands"
  shows "fst (queryIndex rnd e query topK s) = Inr (js_slice (js_sort by_similarity cands) 0 topK)"
proof -
  let ?s1 = "console_log ([0xD83D, 0xDD0D] @ lit '' Searching: '' @ [0x22] @ query @ [0x22]) s"
  obtain r s2 where l: "loadIndex e ?s1 = (r, s2)" by (cases "loadIndex e ?s1") auto
  have c: "calls s2 = calls s" using l loadIndex_fields [of e ?s1] by simp
  have "r = Inr ix" using l assms(1) loadIndex_console_log [of e _ s] by (metis fst_conv)
  then show ?thesis
    using l c assms(2-5)
    by (simp add: queryIndex_def Let_def generateEmbeddings_def)
qed

lemma example_similarities:
  "cosineSimilarity Num (Vec [1, 0]) (Vec [0, 0]) = Inr NaN"
  "cosineSimilarity Num (Vec [1, 0]) (Vec [1, 0]) = Inr (Num 1)"
  "cosineSimilarity Num (Vec [1, 0]) (Vec [0, 1]) = Inr (Num 0)"
  by (simp_all add: cosine_loop.simps cosine_result_def at_index_def inf_of_sign_def)

lemma example_query_embedding:
  "getClient example_env"
  "embedText example_env cs [q] = Inr (Some [Vec [1, 0]])"
  by (simp_all add: getClient_def example_env_def lit_def)

section \<open>The top of the ranking\<close>

text \<open>
  C1, as the code has it. Let the loaded index have \<open>N\<close> documents and \<open>N\<close> embeddings,
  let \<open>topK\<close> be an integer that is not negative, and, unless \<open>N\<close> is zero, let the
  service answer the request for the query's embedding. If a similarity is computed for every
  document and none is NaN, then the search returns \<open>min(topK, N)\<close> results, sorted by
  similarity descending. The results are the candidates at the first \<open>topK\<close> positions of an
  ordering of all \<open>N\<close> positions without repetition, so each returned document appears once,
  and every returned similarity is at least every similarity that is not returned. The
  candidate at position \<open>i\<close> is the document at \<open>i\<close> with its cosine similarity to the
  query.
\<close>

theorem queryIndex_top_k:
  assumes load: "fst (loadIndex e s) = Inr ix"
    and aligned: "length (documents ix) = N" "length (embeddings ix) = N"
    and topK: "0 \<le> topK"
    and service: "N = 0 \<or> (getClient e \<and> embedText e (calls s) [query] = Inr answer)"
    and queryEmbedding: "queryEmbedding = emb_at (case answer of None \<Rightarrow> [] | Some rs \<Rightarrow> rs) 0"
    and candidates:
      "map_embeddings rnd queryEmbedding (documents ix) (embeddings ix) 0 = Inr candidates"
    and no_nan: "\<forall>c \<in> set candidates. similarity c \<noteq> NaN"
  shows "\<exists>order results.
           fst (queryIndex rnd e query topK s) = Inr results \<and>
           distinct order \<and> set order = {..<N} \<and>
           results = map ((!) candidates) (take (nat topK) order) \<and>
           length results = min (nat topK) N \<and>
           sorted_wrt (\<lambda>a b. js_ge (similarity a) (similarity b)) results \<and>
           (\<forall>i \<in> set (take (nat topK) order). \<forall>j \<in> set (drop (nat topK) order).
              js_ge (similarity (candidates ! i)) (similarity (candidates ! j))) \<and>
           (\<forall>i < N. doc_fields (candidates ! i) = Some (documents ix ! i) \<and>
              cosineSimilarity rnd queryEmbedding (embeddings ix ! i)
                = Inr (similarity (candidates ! i)))"
proof -
  from map_embeddings_Inr [OF candidates] aligned
  have len: "length candidates = N"
    and each: "\<forall>i < N. doc_fields (candidates ! i) = Some (documents ix ! i) \<and>
              cosineSimilarity rnd queryEmbedding (embeddings ix ! i)
                = Inr (similarity (candidates ! i))"
    by simp_all
  obtain order where order: "distinct order" "set order = {..<N}"
    "js_sort by_similarity candidates = map ((!) candidates) order"
    using js_sort_order [of candidates by_similarity] len by auto
  let ?sorted = "js_sort by_similarity candidates"
  let ?results = "take (nat topK) ?sorted"
  have desc: "sorted_wrt (\<lambda>a b. js_ge (similarity a) (similarity b)) ?sorted"
    using no_nan by (rule descending_js_sort)
  have res: "fst (queryIndex rnd e query topK s) = Inr ?results"
  proof (cases "N = 0")
    case True
    with aligned len have "documents ix = []" "candidates = []" by simp_all
    with queryIndex_empty [OF load, of rnd query topK] show ?thesis by simp
  next
    case False
    with service aligned have "getClient e" "embedText e (calls s) [query] = Inr answer"
      "documents ix \<noteq> []" by auto
    from queryIndex_result [OF load this(3,1,2) candidates [unfolded queryEmbedding]] topK
    show ?thesis by (simp add: js_slice_from_0)
  qed
  have eq: "?results = map ((!) candidates) (take (nat topK) order)"
    by (simp add: order(3) take_map)
  have lo: "length order = N"
    using order(1,2) by (metis card_lessThan distinct_card)
  have "length ?results = min (nat topK) N"
    by (simp add: eq lo min.commute)
  moreover have "sorted_wrt (\<lambda>a b. js_ge (similarity a) (similarity b)) ?results"
    using desc by (rule sorted_wrt_take)
  moreover have "\<forall>i \<in> set (take (nat topK) order). \<forall>j \<in> set (drop (nat topK) order).
              js_ge (similarity (candidates ! i)) (similarity (candidates ! j))"
  proof -
    have "sorted_wrt (\<lambda>i j. js_ge (similarity (candidates ! i)) (similarity (candidates ! j))) order"
      using desc by (simp add: order(3) sorted_wrt_map)
    then have "sorted_wrt (\<lambda>i j. js_ge (similarity (candidates ! i)) (similarity (candidates ! j)))
                 (take (nat topK) order @ drop (nat topK) order)"
      by simp
    then show ?thesis
      unfolding sorted_wrt_append by blast
  qed
  ultimately show ?thesis
    using res eq order(1,2) each by blast
qed

theorem queryIndex_top_k_witness:
  "fst (loadIndex example_env two_docs_state) =
     Inr \<lparr>documents = json_documents two_docs_json, embeddings = [Vec [0, 1], Vec [1, 0]],
          metadata = json_metadata two_docs_json\<rparr> \<and>
   length (json_documents two_docs_json) = 2 \<and>
   (0 :: int) \<le> 1 \<and>
   getClient example_env \<and>
   embedText example_env (calls two_docs_state) [lit ''cloud''] = Inr (Some [Vec [1, 0]]) \<and>
   map_embeddings Num (Vec [1, 0]) (json_documents two_docs_json) [Vec [0, 1], Vec [1, 0]] 0 =
     Inr [\<lparr>doc_fields = Some example_doc, similarity = Num 0\<rparr>,
          \<lparr>doc_fields = Some \<lparr>filename = lit ''c.txt'', preview = lit ''gamma'', length_d = 5\<rparr>,
           similarity = Num 1\<rparr>] \<and>
   fst (queryIndex Num example_env (lit ''cloud'') 1 two_docs_state) =
     Inr [\<lparr>doc_fields = Some \<lparr>filename = lit ''c.txt'', preview = lit ''gamma'', length_d = 5\<rparr>,
           similarity = Num 1\<rparr>] \<and>
   (\<exists>order results.
      fst (queryIndex Num example_env (lit ''cloud'') 1 two_docs_state) = Inr results \<and>
      distinct order \<and> set order = {..<2 :: nat} \<and> length results = min (nat 1) 2 \<and>
      sorted_wrt (\<lambda>a b. js_ge (similarity a) (similarity b)) results)"
proof -
  let ?ix = "\<lparr>documents = json_documents two_docs_json, embeddings = [Vec [0, 1], Vec [1, 0]],
          metadata = json_metadata two_docs_json\<rparr>"
  let ?cands = "[\<lparr>doc_fields = Some example_doc, similarity = Num 0\<rparr>,
          \<lparr>doc_fields = Some \<lparr>filename = lit ''c.txt'', preview = lit ''gamma'', length_d = 5\<rparr>,
           similarity = Num 1\<rparr>]"
  have l: "fst (loadIndex example_env two_docs_state) = Inr ?ix"
    by (simp add: loadIndex_cases two_docs_state_def two_docs_json_def)
  have n0: "length (json_documents two_docs_json) = 2"
    by (simp add: two_docs_json_def)
  then have n: "length (documents ?ix) = 2" "length (embeddings ?ix) = 2"
    by simp_all
  have t: "(0 :: int) \<le> 1" by simp
  have g: "getClient example_env"
    and a: "embedText example_env (calls two_docs_state) [lit ''cloud''] = Inr (Some [Vec [1, 0]])"
    by (rule example_query_embedding)+
  have q: "Vec [1, 0] = emb_at (case Some [Vec [1, 0]] of None \<Rightarrow> [] | Some rs \<Rightarrow> rs) 0"
    by (simp add: emb_at_def)
  have m0: "map_embeddings Num (Vec [1, 0]) (json_documents two_docs_json) [Vec [0, 1], Vec [1, 0]] 0
      = Inr ?cands"
    by (simp add: example_similarities two_docs_json_def del: cosineSimilarity.simps)
  then have m: "map_embeddings Num (Vec [1, 0]) (documents ?ix) (embeddings ?ix) 0 = Inr ?cands"
    by simp
  have nn: "\<forall>c \<in> set ?cands. similarity c \<noteq> NaN" by simp
  have top: "\<exists>order results.
      fst (queryIndex Num example_env (lit ''cloud'') 1 two_docs_state) = Inr results \<and>
      distinct order \<and> set order = {..<2 :: nat} \<and> length results = min (nat 1) 2 \<and>
      sorted_wrt (\<lambda>a b. js_ge (similarity a) (similarity b)) results"
    using queryIndex_top_k [OF l n t disjI2 [OF conjI [OF g a]] q m nn]
    by blast
  have d: "documents ?ix \<noteq> []"
    by (simp add: two_docs_json_def)
  have "fst (queryIndex Num example_env (lit ''cloud'') 1 two_docs_state) =
      Inr (js_slice (js_sort by_similarity ?cands) 0 1)"
  proof (rule queryIndex_result [OF l d g a])
    show "map_embeddings Num (emb_at (case Some [Vec [1, 0]] of None \<Rightarrow> [] | Some rs \<Rightarrow> rs) 0)
            (documents ?ix) (embeddings ?ix) 0 = Inr ?cands"
      using m by (simp add: emb_at_def)
  qed
  moreover have "js_slice (js_sort by_similarity ?cands) 0 1 =
     [\<lparr>doc_fields = Some \<lparr>filename = lit ''c.txt'', preview = lit ''gamma'', length_d = 5\<rparr>,
           similarity = Num 1\<rparr>]"
    by (simp add: js_slice_def SortCompare_def by_similarity_def)
  ultimately have r: "fst (queryIndex Num example_env (lit ''cloud'') 1 two_docs_state) =
     Inr [\<lparr>doc_fields = Some \<lparr>filename = lit ''c.txt'', preview = lit ''gamma'', length_d = 5\<rparr>,
           similarity = Num 1\<rparr>]"
    by (simp only:)
  from l n0 t g a m0 r top show ?thesis
    by (intro conjI)
qed

text \<open>
  C1 as stated fails when an embedding is the zero vector: its similarity is NaN, which the
  comparator cannot order, and the results are not sorted by similarity descending.
\<close>

theorem queryIndex_nan_counterexample:
  "map_sum id (map similarity)
     (fst (queryIndex Num example_env (lit ''cloud'') 2 zero_vector_state)) = Inr [NaN, Num 1] \<and>
   \<not> sorted_wrt js_ge [NaN, Num 1]"
proof -
  have l: "fst (loadIndex example_env zero_vector_state) =
          Inr \<lparr>documents = json_documents zero_vector_json,
               embeddings = [Vec [0, 0], Vec [1, 0]],
               metadata = json_metadata zero_vector_json\<rparr>"
    by (simp add: loadIndex_cases zero_vector_state_def zero_vector_json_def)
  have m: "map_embeddings Num (emb_at (case Some [Vec [1, 0]] of None \<Rightarrow> [] | Some rs \<Rightarrow> rs) 0)
        (documents \<lparr>documents = json_documents zero_vector_json,
               embeddings = [Vec [0, 0], Vec [1, 0]],
               metadata = json_metadata zero_vector_json\<rparr>)
        (embeddings \<lparr>documents = json_documents zero_vector_json,
               embeddings = [Vec [0, 0], Vec [1, 0]],
               metadata = json_metadata zero_vector_json\<rparr>) 0 =
      Inr [\<lparr>doc_fields = Some example_doc, similarity = NaN\<rparr>,
           \<lparr>doc_fields = Some \<lparr>filename = lit ''c.txt'', preview = lit ''gamma'', length_d = 5\<rparr>,
            similarity = Num 1\<rparr>]"
    by (simp add: emb_at_def example_similarities zero_vector_json_def del: cosineSimilarity.simps)
  have "fst (queryIndex Num example_env (lit ''cloud'') 2 zero_vector_state) =
      Inr (js_slice (js_sort by_similarity
        [\<lparr>doc_fields = Some example_doc, similarity = NaN\<rparr>,
         \<lparr>doc_fields = Some \<lparr>filename = lit ''c.txt'', preview = lit ''gamma'', length_d = 5\<rparr>,
          similarity = Num 1\<rparr>]) 0 2)"
    by (rule queryIndex_result [OF l _ example_query_embedding m])
       (simp add: zero_vector_json_def)
  then show ?thesis
    by (simp add: js_slice_def SortCompare_def by_similarity_def)
qed

section \<open>The index arrays\<close>

text \<open>
  C2, as the code has it. \<open>buildIndex\<close>, whenever it completes, returns an index whose
  \<open>documents\<close> and \<open>embeddings\<close> have the same length and has written that index to the
  file. \<open>saveIndex\<close> writes the two arrays it is given, whatever their lengths.
  \<open>loadIndex\<close> returns arrays of the same length when the file is absent, is not JSON, or
  holds arrays of the same length; it returns what the file holds and checks nothing.
\<close>

theorem index_arrays_aligned:
  "(fst (buildIndex e maxDocs s) = Inr built \<longrightarrow>
      length (documents built) = length (embeddings built) \<and>
      (\<exists>j. index_file (snd (buildIndex e maxDocs s)) = Some (JsonText j) \<and>
           json_documents j = documents built \<and>
           length (json_embeddings j) = length (json_documents j))) \<and>
   (fst (saveIndex e i s) = Inr saved \<longrightarrow>
      documents saved = documents i \<and> embeddings saved = embeddings i \<and>
      (\<exists>j. index_file (snd (saveIndex e i s)) = Some (JsonText j) \<and>
           length (json_documents j) = length (documents i) \<and>
           length (json_embeddings j) = length (embeddings i))) \<and>
   ((\<forall>j. index_file s = Some (JsonText j) \<longrightarrow>
          length (json_documents j) = length (json_embeddings j)) \<longrightarrow>
      (\<exists>loaded. fst (loadIndex e s) = Inr loaded \<and>
         length (documents loaded) = length (embeddings loaded)))"
proof (intro conjI impI)
  assume b: "fst (buildIndex e maxDocs s) = Inr built"
  then have "buildIndex e maxDocs s = (Inr built, snd (buildIndex e maxDocs s))"
    by (metis prod.collapse)
  from buildIndex_aligned [OF this]
  show "length (documents built) = length (embeddings built)"
    and "\<exists>j. index_file (snd (buildIndex e maxDocs s)) = Some (JsonText j) \<and>
           json_documents j = documents built \<and>
           length (json_embeddings j) = length (json_documents j)"
    by (simp_all add: JSON_stringify_def)
next
  assume "fst (saveIndex e i s) = Inr saved"
  then show "documents saved = documents i" and "embeddings saved = embeddings i"
    and "\<exists>j. index_file (snd (saveIndex e i s)) = Some (JsonText j) \<and>
           length (json_documents j) = length (documents i) \<and>
           length (json_embeddings j) = length (embeddings i)"
    by (auto simp: saveIndex_cases Let_def JSON_stringify_def split: if_splits)
next
  assume "\<forall>j. index_file s = Some (JsonText j) \<longrightarrow>
            length (json_documents j) = length (json_embeddings j)"
  then show "\<exists>loaded. fst (loadIndex e s) = Inr loaded \<and>
               length (documents loaded) = length (embeddings loaded)"
    by (auto simp: loadIndex_cases split: option.splits file_text.splits)
qed

theorem index_arrays_aligned_witness:
  "fst (buildIndex example_env 5 empty_state) =
     Inr \<lparr>documents = [example_doc], embeddings = [Vec [1, 0]],
          metadata = \<lparr>created = Some (lit ''2024-01-01T00:00:00.000Z''),
                      updated = Some (lit ''2024-01-01T00:00:00.000Z''),
                      count_m = Some 1\<rparr>\<rparr> \<and>
   (\<exists>j. index_file (snd (buildIndex example_env 5 empty_state)) = Some (JsonText j) \<and>
        length (json_embeddings j) = length (json_documents j)) \<and>
   fst (saveIndex example_env undefined_slot_index empty_state) =
     Inr (undefined_slot_index
           \<lparr>metadata := \<lparr>created = Some (lit ''2024-01-01T00:00:00.000Z''),
                          updated = Some (lit ''2024-01-01T00:00:00.000Z''),
                          count_m = Some 1\<rparr>\<rparr>) \<and>
   index_file indexed_state = Some (JsonText indexed_json) \<and>
   length (json_documents indexed_json) = length (json_embeddings indexed_json) \<and>
   (\<exists>loaded. fst (loadIndex example_env indexed_state) = Inr loaded \<and>
      length (documents loaded) = length (embeddings loaded))"
proof -
  have b: "fst (buildIndex example_env 5 empty_state) =
     Inr \<lparr>documents = [example_doc], embeddings = [Vec [1, 0]],
          metadata = \<lparr>created = Some (lit ''2024-01-01T00:00:00.000Z''),
                      updated = Some (lit ''2024-01-01T00:00:00.000Z''),
                      count_m = Some 1\<rparr>\<rparr>"
    by (rule example_build) simp
  have sv: "fst (saveIndex example_env undefined_slot_index empty_state) =
     Inr (undefined_slot_index
           \<lparr>metadata := \<lparr>created = Some (lit ''2024-01-01T00:00:00.000Z''),
                          updated = Some (lit ''2024-01-01T00:00:00.000Z''),
                          count_m = Some 1\<rparr>\<rparr>)"
    by (simp add: saveIndex_cases Let_def example_env_def undefined_slot_index_def empty_state_def)
  have i: "index_file indexed_state = Some (JsonText indexed_json)"
    and n: "length (json_documents indexed_json) = length (json_embeddings indexed_json)"
    by (simp_all add: indexed_state_def indexed_json_def)
  have f: "\<forall>j. index_file indexed_state = Some (JsonText j) \<longrightarrow>
        length (json_documents j) = length (json_embeddings j)"
    using i n by simp
  note built = index_arrays_aligned [THEN conjunct1, THEN mp, OF b]
  note loaded = index_arrays_aligned [THEN conjunct2, THEN conjunct2, THEN mp, OF f,
      of example_env]
  from built have "\<exists>j. index_file (snd (buildIndex example_env 5 empty_state)) = Some (JsonText j) \<and>
        length (json_embeddings j) = length (json_documents j)"
    by blast
  with b sv i n loaded show ?thesis
    by (intro conjI)
qed

text \<open>
  C2 as stated fails for \<open>loadIndex\<close>: a file that holds one document and no embedding is
  returned as it is.
\<close>

theorem loadIndex_misaligned_counterexample:
  "map_sum id (\<lambda>ix. (length (documents ix), length (embeddings ix)))
     (fst (loadIndex example_env misaligned_state)) = Inr (1, 0) \<and>
   (1 :: nat) \<noteq> 0"
  by (simp add: loadIndex_cases misaligned_state_def)

section \<open>Loading\<close>

text \<open>
  C3. \<open>loadIndex\<close> never raises. When the index file is absent or is not JSON it returns
  the empty index: no documents, no embeddings, a count of zero, and \<open>created\<close> set to the
  reading of the clock taken at that moment.
\<close>

theorem loadIndex_never_raises:
  "(\<exists>ix s'. loadIndex e s = (Inr ix, s')) \<and>
   (index_file s = None \<or> index_file s = Some NotJson \<longrightarrow>
      fst (loadIndex e s) =
        Inr \<lparr>documents = [], embeddings = [],
             metadata = \<lparr>created = Some (toISOString e (clock_reads s)), updated = None,
                         count_m = Some 0\<rparr>\<rparr>)"
proof (intro conjI impI)
  show "\<exists>ix s'. loadIndex e s = (Inr ix, s')"
  proof (cases "loadIndex_try s")
    case (Inl err)
    then show ?thesis by (simp add: loadIndex_def new_Date_def)
  next
    case (Inr i)
    then show ?thesis by (simp add: loadIndex_def)
  qed
next
  assume "index_file s = None \<or> index_file s = Some NotJson"
  then obtain err where "loadIndex_try s = Inl err"
    by (auto simp: loadIndex_try_def)
  then show "fst (loadIndex e s) =
        Inr \<lparr>documents = [], embeddings = [],
             metadata = \<lparr>created = Some (toISOString e (clock_reads s)), updated = None,
                         count_m = Some 0\<rparr>\<rparr>"
    by (simp add: loadIndex_def new_Date_def)
qed

theorem loadIndex_never_raises_witness:
  "index_file empty_state = None \<and>
   fst (loadIndex example_env empty_state) =
     Inr \<lparr>documents = [], embeddings = [],
          metadata = \<lparr>created = Some (lit ''2024-01-01T00:00:00.000Z''), updated = None,
                      count_m = Some 0\<rparr>\<rparr>"
  using loadIndex_never_raises [of example_env empty_state]
  by (simp add: empty_state_def example_env_def)

section \<open>Saving, then loading\<close>

text \<open>
  C4, as the code has it. When the write succeeds, loading after \<open>saveIndex\<close> returns the
  same documents, in order, and the same embeddings except that every \<open>undefined\<close> slot
  has become \<open>null\<close>; with no \<open>undefined\<close> slot the embeddings are the same. Writing the
  loaded index as JSON again gives the text of the file.
\<close>

theorem save_then_load:
  assumes "writable e"
  shows "\<exists>saved s1 loaded s2.
           saveIndex e i s = (Inr saved, s1) \<and> loadIndex e s1 = (Inr loaded, s2) \<and>
           documents loaded = documents i \<and>
           embeddings loaded = map (\<lambda>x. if x = Undefined then Null else x) (embeddings i) \<and>
           (Undefined \<notin> set (embeddings i) \<longrightarrow> embeddings loaded = embeddings i) \<and>
           index_file s1 = Some (JSON_stringify loaded)"
proof -
  have "map (\<lambda>x. if x = Undefined then Null else x) xs = xs" if "Undefined \<notin> set xs" for xs :: "emb list"
    using that by (induction xs) auto
  moreover have "emb_to_json (if x = Undefined then Null else x) = emb_to_json x" for x
    by (cases x) simp_all
  ultimately show ?thesis
    using assms
    by (simp add: saveIndex_cases loadIndex_cases JSON_stringify_def Let_def json_to_emb_to_json
        comp_def)
qed

theorem save_then_load_witness:
  "writable example_env \<and>
   fst (saveIndex example_env
          \<lparr>documents = [example_doc], embeddings = [Vec [1, 0]],
           metadata = \<lparr>created = None, updated = None, count_m = None\<rparr>\<rparr> empty_state) =
     Inr \<lparr>documents = [example_doc], embeddings = [Vec [1, 0]],
          metadata = \<lparr>created = None, updated = Some (lit ''2024-01-01T00:00:00.000Z''),
                      count_m = Some 1\<rparr>\<rparr> \<and>
   map_sum id (\<lambda>l. (documents l, embeddings l))
     (fst (loadIndex example_env
        (snd (saveIndex example_env
           \<lparr>documents = [example_doc], embeddings = [Vec [1, 0]],
            metadata = \<lparr>created = None, updated = None, count_m = None\<rparr>\<rparr> empty_state)))) =
     Inr ([example_doc], [Vec [1, 0]])"
proof -
  have w: "writable example_env" by (simp add: example_env_def)
  from save_then_load [OF w, of "\<lparr>documents = [example_doc], embeddings = [Vec [1, 0]],
           metadata = \<lparr>created = None, updated = None, count_m = None\<rparr>\<rparr>" empty_state]
  show ?thesis
    using w by (auto simp: saveIndex_cases Let_def example_env_def)
qed

text \<open>
  C4 as stated fails on an index with an \<open>undefined\<close> embedding, which is what a build
  leaves when the service answers without results: the slot is loaded as \<open>null\<close>.
\<close>

theorem save_then_load_counterexample:
  "map_sum id embeddings
     (fst (loadIndex example_env (snd (saveIndex example_env undefined_slot_index empty_state))))
     = Inr [Null] \<and>
   embeddings undefined_slot_index = [Undefined] \<and>
   [Null] \<noteq> [Undefined]"
  by (simp add: saveIndex_cases loadIndex_cases JSON_stringify_def Let_def example_env_def
      undefined_slot_index_def empty_state_def)

lemma buildIndex_undefined_slot:
  "map_sum id embeddings (fst (buildIndex no_results_env 5 empty_state)) = Inr [Undefined]"
proof -
  have env: "readdir no_results_env = Inr [lit ''a.txt'', lit ''b.md'', lit ''c.txt'']"
    "writable no_results_env" "toISOString no_results_env n = lit ''2024-01-01T00:00:00.000Z''" for n
    by (simp_all add: no_results_env_def example_env_def)
  have tf: "js_slice (filter (\<lambda>f. endsWith f (lit ''.txt'')) [lit ''a.txt'', lit ''b.md'', lit ''c.txt'']) 0 5
              = [lit ''a.txt'', lit ''c.txt'']"
    by (simp only: txt_files_example) (simp add: js_slice_def Let_def)
  have rb: "read_batch no_results_env [lit ''a.txt'', lit ''c.txt''] = ([lit ''alpha''], [example_doc])"
    by (simp add: no_results_env_def example_env_def example_paths example_doc_def)
       (simp add: lit_def replace_newlines_def)
  have bl: "build_loop no_results_env [lit ''a.txt'', lit ''c.txt''] 0 ix0 s0 =
          (Inr (push_batch [example_doc] [] ix0),
           (console_log (lit ''   Processing batch '' @ show_nat 1 @ lit ''/'' @ show_nat 1 @ lit ''...'') s0)
             \<lparr>calls := calls s0 @ [EmbedText [lit ''alpha'']]\<rparr>)" for ix0 s0
  proof -
    have "js_slice [lit ''a.txt'', lit ''c.txt''] (int 0) (int 0 + 10) = [lit ''a.txt'', lit ''c.txt'']"
      by (simp add: js_slice_def Let_def)
    moreover have "generateEmbeddings no_results_env [lit ''alpha''] s1 =
        (Inr [], s1\<lparr>calls := calls s1 @ [EmbedText [lit ''alpha'']]\<rparr>)" for s1
      by (simp add: generateEmbeddings_def getClient_def no_results_env_def example_env_def Let_def lit_def)
    moreover have "build_loop no_results_env [lit ''a.txt'', lit ''c.txt''] (0 + 10) ix1 s1 = (Inr ix1, s1)"
      for ix1 s1
      by (subst build_loop.simps) simp
    ultimately show ?thesis
      by (subst build_loop.simps) (simp add: rb Let_def console_log_def del: read_batch.simps)
  qed
  show ?thesis
    by (simp add: buildIndex_def env tf bl Let_def new_Date_def saveIndex_cases
        push_batch_def emb_at_def del: filter.simps)
qed

section \<open>The texts sent to the embedding service\<close>

text \<open>
  C5, as the code has it. Every text that \<open>buildIndex\<close> sends to the embedding service has
  at most 500 code units. \<open>queryIndex\<close> sends no text but its query, and sends it whole:
  on an index with a document and with a client, its one request carries the query unchanged.
\<close>

theorem build_texts_truncated:
  "(\<exists>new. calls (snd (buildIndex e maxDocs s)) = calls s @ new \<and>
      (\<forall>c \<in> set new. \<exists>ts. c = EmbedText ts \<and> (\<forall>t \<in> set ts. length t \<le> 500))) \<and>
   (calls (snd (queryIndex rnd e query topK s)) = calls s \<or>
    calls (snd (queryIndex rnd e query topK s)) = calls s @ [EmbedText [query]]) \<and>
   (fst (loadIndex e s) = Inr ix \<and> documents ix \<noteq> [] \<and> getClient e \<longrightarrow>
      calls (snd (queryIndex rnd e query topK s)) = calls s @ [EmbedText [query]])"
  using buildIndex_calls [of e maxDocs s "fst (buildIndex e maxDocs s)" "snd (buildIndex e maxDocs s)"]
    queryIndex_calls [of rnd e query topK s] queryIndex_submits_query [of e s ix rnd query topK]
  by simp

theorem build_texts_truncated_witness:
  "calls (snd (buildIndex long_env 5 empty_state)) = calls empty_state @ [EmbedText [replicate 500 0x61]] \<and>
   length (replicate 500 (0x61 :: 16 word)) \<le> 500 \<and>
   fst (loadIndex example_env indexed_state) =
     Inr \<lparr>documents = [example_doc], embeddings = [Vec [1, 0]],
          metadata = \<lparr>created = None, updated = None, count_m = Some 1\<rparr>\<rparr> \<and>
   [example_doc] \<noteq> [] \<and> getClient example_env \<and>
   calls (snd (queryIndex Num example_env (lit ''cloud'') 5 indexed_state)) =
     calls indexed_state @ [EmbedText [lit ''cloud'']]"
proof -
  have l: "fst (loadIndex example_env indexed_state) =
     Inr \<lparr>documents = [example_doc], embeddings = [Vec [1, 0]],
          metadata = \<lparr>created = None, updated = None, count_m = Some 1\<rparr>\<rparr>"
    by (simp add: loadIndex_cases indexed_state_def indexed_json_def)
  have g: "getClient example_env"
    by (simp add: getClient_def example_env_def lit_def)
  have b: "calls (snd (buildIndex long_env 5 empty_state)) = calls empty_state @ [EmbedText [replicate 500 0x61]]"
    using long_build by (simp add: empty_state_def)
  note t = build_texts_truncated [of long_env 5 empty_state]
  have q: "calls (snd (queryIndex Num example_env (lit ''cloud'') 5 indexed_state)) =
     calls indexed_state @ [EmbedText [lit ''cloud'']]"
    using build_texts_truncated [of example_env 5 indexed_state Num "lit ''cloud''" 5
        "\<lparr>documents = [example_doc], embeddings = [Vec [1, 0]],
          metadata = \<lparr>created = None, updated = None, count_m = Some 1\<rparr>\<rparr>"] l g
    by simp
  from t b l g q show ?thesis by simp
qed

text \<open>C5 as stated fails for a search: a query of 501 code units is sent with all 501.\<close>

theorem query_not_truncated_counterexample:
  "calls (snd (queryIndex Num example_env (replicate 501 0x61) 5 indexed_state))
     = [EmbedText [replicate 501 0x61]] \<and>
   \<not> length (replicate 501 (0x61 :: 16 word)) \<le> 500"
proof -
  have "fst (loadIndex example_env indexed_state) =
          Inr \<lparr>documents = [example_doc], embeddings = [Vec [1, 0]],
               metadata = \<lparr>created = None, updated = None, count_m = Some 1\<rparr>\<rparr>"
    by (simp add: loadIndex_cases indexed_state_def indexed_json_def)
  from queryIndex_submits_query [OF this, of Num "replicate 501 0x61" 5] show ?thesis
    by (simp add: getClient_def example_env_def indexed_state_def indexed_json_def lit_def)
qed

section \<open>A question on an empty index\<close>

text \<open>
  C6. When the loaded index has no documents, \<open>ragQuery\<close> sends no request to the remote
  service, so none to the text-generation endpoint, and the last line it prints is
  \<open>No documents found. Build index first.\<close>
\<close>

theorem ragQuery_empty_index:
  assumes "fst (loadIndex e s) = Inr ix" and "documents ix = []"
  shows "fst (ragQuery rnd e question topK s) = Inr () \<and>
         calls (snd (ragQuery rnd e question topK s)) = calls s \<and>
         console (snd (ragQuery rnd e question topK s)) =
           console s @
           [Log ([0xD83D, 0xDCA1] @ lit '' RAG Query: '' @ [0x22] @ question @ [0x22]),
            Log ([0xD83D, 0xDD0D] @ lit '' Searching: '' @ [0x22] @ question @ [0x22]),
            Log (lit ''   Index is empty. Run '' @ [0x27] @ lit ''build'' @ [0x27] @ lit '' first.''),
            Log (lit ''   No documents found. Build index first.'')]"
proof -
  let ?s1 = "console_log ([0xD83D, 0xDCA1] @ lit '' RAG Query: '' @ [0x22] @ question @ [0x22]) s"
  have "fst (loadIndex e ?s1) = Inr ix"
    using assms(1) by (simp add: loadIndex_console_log)
  from queryIndex_empty [OF this assms(2), of rnd question topK] show ?thesis
    by (cases "queryIndex rnd e question topK ?s1") (simp add: ragQuery_def Let_def)
qed

theorem ragQuery_empty_index_witness:
  "fst (loadIndex example_env empty_state) =
     Inr \<lparr>documents = [], embeddings = [],
          metadata = \<lparr>created = Some (lit ''2024-01-01T00:00:00.000Z''), updated = None,
                      count_m = Some 0\<rparr>\<rparr> \<and>
   fst (ragQuery Num example_env (lit ''why'') 3 empty_state) = Inr () \<and>
   calls (snd (ragQuery Num example_env (lit ''why'') 3 empty_state)) = [] \<and>
   last (console (snd (ragQuery Num example_env (lit ''why'') 3 empty_state))) =
     Log (lit ''   No documents found. Build index first.'')"
proof -
  have l: "fst (loadIndex example_env empty_state) =
     Inr \<lparr>documents = [], embeddings = [],
          metadata = \<lparr>created = Some (lit ''2024-01-01T00:00:00.000Z''), updated = None,
                      count_m = Some 0\<rparr>\<rparr>"
    by (simp add: loadIndex_cases empty_state_def example_env_def)
  from ragQuery_empty_index [OF l, of Num "lit ''why''" 3] l show ?thesis
    by (simp add: empty_state_def)
qed

section \<open>A build of no documents\<close>

text \<open>
  C7. When the documents directory can be listed and the index file written, a build with
  \<open>maxDocs = 0\<close>, or over a directory none of whose \<open>.txt\<close> files can be read, returns and
  writes an index with no documents, no embeddings and a count of zero.
\<close>

theorem buildIndex_zero_documents:
  assumes "readdir e = Inr files" and "writable e"
    and "maxDocs = 0 \<or>
         (\<forall>f \<in> set files. endsWith f (lit ''.txt'') \<longrightarrow>
            (\<exists>err. readFile e (DOCUMENTS_PATH @ lit ''/'' @ f) = Inl err))"
  shows "\<exists>ix s'. buildIndex e maxDocs s = (Inr ix, s') \<and>
           documents ix = [] \<and> embeddings ix = [] \<and> count_m (metadata ix) = Some 0 \<and>
           (\<exists>j. index_file s' = Some (JsonText j) \<and> json_documents j = [] \<and>
                json_embeddings j = [] \<and> count_m (json_metadata j) = Some 0)"
proof -
  from buildIndex_empty [OF assms, of s]
  obtain ix s' where "buildIndex e maxDocs s = (Inr ix, s')" "documents ix = []"
    "embeddings ix = []" "count_m (metadata ix) = Some 0" "index_file s' = Some (JSON_stringify ix)"
    by blast
  then show ?thesis
    by (simp add: JSON_stringify_def)
qed

theorem buildIndex_zero_documents_witness:
  "readdir example_env = Inr [lit ''a.txt'', lit ''b.md'', lit ''c.txt''] \<and>
   writable example_env \<and>
   (\<exists>ix s'. buildIndex example_env 0 empty_state = (Inr ix, s') \<and>
      documents ix = [] \<and> embeddings ix = [] \<and> count_m (metadata ix) = Some 0 \<and>
      (\<exists>j. index_file s' = Some (JsonText j) \<and> json_documents j = [] \<and>
           json_embeddings j = [] \<and> count_m (json_metadata j) = Some 0)) \<and>
   readdir unreadable_env = Inr [lit ''a.txt'', lit ''b.md'', lit ''c.txt''] \<and>
   writable unreadable_env \<and>
   readFile unreadable_env (DOCUMENTS_PATH @ lit ''/'' @ lit ''a.txt'') = Inl IOError \<and>
   readFile unreadable_env (DOCUMENTS_PATH @ lit ''/'' @ lit ''c.txt'') = Inl IOError \<and>
   (\<exists>ix s'. buildIndex unreadable_env 5 empty_state = (Inr ix, s') \<and>
      documents ix = [] \<and> embeddings ix = [] \<and> count_m (metadata ix) = Some 0 \<and>
      (\<exists>j. index_file s' = Some (JsonText j) \<and> json_documents j = [] \<and>
           json_embeddings j = [] \<and> count_m (json_metadata j) = Some 0))"
proof -
  have r1: "readdir example_env = Inr [lit ''a.txt'', lit ''b.md'', lit ''c.txt'']"
    and w1: "writable example_env"
    by (simp_all add: example_env_def)
  have r2: "readdir unreadable_env = Inr [lit ''a.txt'', lit ''b.md'', lit ''c.txt'']"
    and w2: "writable unreadable_env"
    by (simp_all add: unreadable_env_def example_env_def)
  have u: "\<forall>f \<in> set [lit ''a.txt'', lit ''b.md'', lit ''c.txt'']. endsWith f (lit ''.txt'') \<longrightarrow>
      (\<exists>err. readFile unreadable_env (DOCUMENTS_PATH @ lit ''/'' @ f) = Inl err)"
    by (simp add: unreadable_env_def)
  note a = buildIndex_zero_documents [OF r1 w1, of 0 empty_state, OF disjI1, OF refl]
  note b = buildIndex_zero_documents [OF r2 w2, of 5 empty_state, OF disjI2, OF u]
  have v: "readFile unreadable_env p = Inl IOError" for p
    by (simp add: unreadable_env_def)
  from r1 w1 a r2 w2 v b show ?thesis
    by (intro conjI)
qed

section \<open>Symmetry of the cosine similarity\<close>

lemma js_mul_commute: "js_mul rnd x y = js_mul rnd y x"
  by (cases x; cases y) (simp_all add: mult.commute)

lemma cosine_loop_swap:
  "length a = length b \<Longrightarrow>
   cosine_loop rnd a b i (d, na, nb) = (d', na', nb') \<Longrightarrow>
   cosine_loop rnd b a i (d, nb, na) = (d', nb', na')"
proof (induction rnd a b i "(d, na, nb)" arbitrary: d na nb rule: cosine_loop.induct)
  case (1 rnd a b i dot normA normB)
  show ?case
  proof (cases "i < length a")
    case True
    with "1.prems" have lt: "i < length b" by simp
    from "1.prems"(2) True have
      "cosine_loop rnd a b (i + 1)
         (js_add rnd dot (js_mul rnd (at_index a i) (at_index b i)),
          js_add rnd normA (js_mul rnd (at_index a i) (at_index a i)),
          js_add rnd normB (js_mul rnd (at_index b i) (at_index b i))) = (d', na', nb')"
      by (simp add: cosine_loop.simps [of rnd a b i])
    from "1.hyps" [OF True "1.prems"(1) this]
    have "cosine_loop rnd b a (i + 1)
         (js_add rnd dot (js_mul rnd (at_index a i) (at_index b i)),
          js_add rnd normB (js_mul rnd (at_index b i) (at_index b i)),
          js_add rnd normA (js_mul rnd (at_index a i) (at_index a i))) = (d', nb', na')" .
    moreover have "js_mul rnd (at_index b i) (at_index a i) = js_mul rnd (at_index a i) (at_index b i)"
      by (rule js_mul_commute)
    ultimately show ?thesis
      using lt by (simp add: cosine_loop.simps [of rnd b a i])
  next
    case False
    with "1.prems" show ?thesis
      by (simp add: cosine_loop.simps [of rnd a b i] cosine_loop.simps [of rnd b a i])
  qed
qed

text \<open>
  C8. For all numeric vectors \<open>a\<close> and \<open>b\<close> of equal length, \<open>cosineSimilarity(a, b)\<close> and
  \<open>cosineSimilarity(b, a)\<close> are the same value, whatever the rounding of the arithmetic.
\<close>

theorem cosineSimilarity_symmetric:
  "length a = length b \<Longrightarrow>
   cosineSimilarity rnd (Vec a) (Vec b) = cosineSimilarity rnd (Vec b) (Vec a)"
proof -
  assume len: "length a = length b"
  obtain d na nb where ab: "cosine_loop rnd a b 0 (Num 0, Num 0, Num 0) = (d, na, nb)"
    by (cases "cosine_loop rnd a b 0 (Num 0, Num 0, Num 0)") auto
  from cosine_loop_swap [OF len ab]
  have ba: "cosine_loop rnd b a 0 (Num 0, Num 0, Num 0) = (d, nb, na)" .
  have "js_mul rnd (js_sqrt rnd nb) (js_sqrt rnd na) = js_mul rnd (js_sqrt rnd na) (js_sqrt rnd nb)"
    by (rule js_mul_commute)
  then show ?thesis
    by (simp add: ab ba cosine_result_def)
qed

theorem cosineSimilarity_symmetric_witness:
  "length [1, 0 :: real] = length [0, 1 :: real] \<and>
   cosineSimilarity Num (Vec [1, 0]) (Vec [0, 1]) = cosineSimilarity Num (Vec [0, 1]) (Vec [1, 0])"
  using cosineSimilarity_symmetric [of "[1, 0]" "[0, 1]" Num] by simp

section \<open>The tool-call handler\<close>

lemma handler_try_text: "handler_try e req = Inr r \<Longrightarrow> \<exists>t. r = text_response t"
  by (auto simp: handler_try_def split: if_splits option.splits sum.splits)

text \<open>
  Once the client is there, or there is no API key, or the library constructs the client, the
  handler returns a response whose content is one item of type \<open>text\<close>: the result of the
  tool, or an error text for whatever was raised inside the \<open>try\<close>.
\<close>

lemma handler_returns_text:
  assumes "watsonxClient \<or> \<not> truthy (API_KEY e) \<or> newInstance e (ToString (API_KEY e)) = Inr ()"
  shows "\<exists>t c. handler e req watsonxClient =
           (Inr \<lparr>response_content = [\<lparr>item_type = lit ''text'', item_text = t\<rparr>]\<rparr>, c)"
proof -
  from assms have "\<exists>c. getWatsonxClient e watsonxClient = (Inr c, c)"
    by (cases watsonxClient; cases "truthy (API_KEY e)"; auto simp: getWatsonxClient_def)
  then obtain c where client: "getWatsonxClient e watsonxClient = (Inr c, c)" ..
  show ?thesis
  proof (cases c)
    case False
    with client show ?thesis
      by (auto simp: handler_def text_response_def)
  next
    case True
    show ?thesis
    proof (cases "handler_try e req")
      case (Inl err)
      with client True show ?thesis
        by (auto simp: handler_def text_response_def)
    next
      case (Inr r)
      with handler_try_text [OF Inr] client True show ?thesis
        by (auto simp: handler_def text_response_def)
    qed
  qed
qed

text \<open>What the construction of the client raises, the handler raises.\<close>

lemma handler_raises_with_construction:
  assumes "\<not> watsonxClient" and "truthy (API_KEY e)"
    and "newInstance e (ToString (API_KEY e)) = Inl err"
  shows "handler e req watsonxClient = (Inl err, False)"
  using assms by (simp add: handler_def getWatsonxClient_def)

text \<open>
  C9 says that the handler never raises, for any tool call. The code breaks it: the handler
  calls \<open>getWatsonxClient\<close> before its \<open>try\<close>, and with the API key \<open>{key}\<close>, which the
  library refuses, the construction of the client raises and the handler raises with it, for
  any tool call. With no key at all the same handler answers with an error text, and with a
  key the library accepts it answers with the tool's result.
\<close>

theorem handler_raises_on_refused_key:
  "fst (handler refused_key_env \<lparr>name = lit ''watsonx_list_models'', arguments = None\<rparr> False)
     = Inl SdkError \<and>
   fst (handler (refused_key_env\<lparr>API_KEY := None\<rparr>)
          \<lparr>name = lit ''watsonx_list_models'', arguments = None\<rparr> False)
     = Inr \<lparr>response_content =
            [\<lparr>item_type = lit ''text'',
              item_text = Some (lit ''Error: watsonx.ai not configured. Set WATSONX_API_KEY environment variable.'')\<rparr>]\<rparr> \<and>
   fst (handler server_env_example \<lparr>name = lit ''watsonx_list_models'', arguments = None\<rparr> False)
     = Inr \<lparr>response_content = [\<lparr>item_type = lit ''text'', item_text = Some (lit ''[]'')\<rparr>]\<rparr>"
proof (intro conjI)
  show "fst (handler refused_key_env \<lparr>name = lit ''watsonx_list_models'', arguments = None\<rparr> False)
     = Inl SdkError"
    by (simp add: handler_def getWatsonxClient_def refused_key_env_def server_env_example_def
        ToString_def lit_def)
  show "fst (handler (refused_key_env\<lparr>API_KEY := None\<rparr>)
          \<lparr>name = lit ''watsonx_list_models'', arguments = None\<rparr> False)
     = Inr \<lparr>response_content =
            [\<lparr>item_type = lit ''text'',
              item_text = Some (lit ''Error: watsonx.ai not configured. Set WATSONX_API_KEY environment variable.'')\<rparr>]\<rparr>"
    by (simp add: handler_def getWatsonxClient_def refused_key_env_def server_env_example_def
        text_response_def)
  show "fst (handler server_env_example \<lparr>name = lit ''watsonx_list_models'', arguments = None\<rparr> False)
     = Inr \<lparr>response_content = [\<lparr>item_type = lit ''text'', item_text = Some (lit ''[]'')\<rparr>]\<rparr>"
    by (simp add: handler_def getWatsonxClient_def server_env_example_def ToString_def
        handler_try_def text_response_def)
       (simp add: lit_def)
qed

section \<open>The build command and the argument zero\<close>







end
